theory Spec2Isabelle
  imports Complex_Main
begin

section \<open>Numbers and small helpers\<close>

text \<open>
  The scoring engine is TypeScript; every quantity is a JavaScript \<open>number\<close>. The model
  reads a \<open>number\<close> as an exact \<^typ>\<open>real\<close>: the values are finite (no \<open>NaN\<close>, no
  \<open>Infinity\<close>) and arithmetic does not round. Counters that the code only ever increments
  by one from zero (\<open>wins\<close>, \<open>losses\<close>, \<open>games\<close>) are \<^typ>\<open>nat\<close>.

  \<open>x || d\<close> on numbers yields \<open>d\<close> when \<open>x\<close> is \<open>0\<close> (or absent) and \<open>x\<close> otherwise.
  An absent counter is read as \<open>0\<close>.
\<close>

definition js_or :: "real \<Rightarrow> real \<Rightarrow> real" where
  "js_or x d = (if x = 0 then d else x)"

text \<open>\<open>Math.round\<close> rounds half up.\<close>

definition Math_round :: "real \<Rightarrow> int" where
  "Math_round x = \<lfloor>x + 1 / 2\<rfloor>"

text \<open>\<open>xs.reduce((a, b) => a + b, 0)\<close>\<close>

definition sum_reduce :: "real list \<Rightarrow> real" where
  "sum_reduce xs = foldl (\<lambda>a b. a + b) 0 xs"

text \<open>\<open>xs.slice(a, b)\<close> for \<open>0 \<le> a \<le> b\<close>.\<close>

definition slice :: "'a list \<Rightarrow> nat \<Rightarrow> nat \<Rightarrow> 'a list" where
  "slice xs a b = take (b - a) (drop a xs)"

section \<open>Match records\<close>

text \<open>
  \<open>MatchParticipant\<close> with the fields the scoring engine reads. The display-only fields
  (\<open>championId\<close>, items, summoner spells, names, \<open>totalTimeCCDealt\<close>, \<open>totalHeal\<close>,
  \<open>killingSprees\<close>, the participant's own copy of \<open>gameDuration\<close>) are left out.
  \<open>teamPosition\<close> is a string; the two lookup tables keyed by it are plain objects, and the
  model reads them by their own keys only (the labels supplied upstream are \<open>TOP\<close>,
  \<open>JUNGLE\<close>, \<open>MIDDLE\<close>, \<open>BOTTOM\<close>, \<open>UTILITY\<close> and the empty string).
\<close>

record MatchParticipant =
  puuid :: string
  championName :: string
  champLevel :: real
  kills :: real
  deaths :: real
  assists :: real
  win :: bool
  totalMinionsKilled :: real
  neutralMinionsKilled :: real
  visionScore :: real
  visionWardsBoughtInGame :: real
  wardsPlaced :: real
  wardsKilled :: real
  goldEarned :: real
  totalDamageDealtToChampions :: real
  totalDamageTaken :: real
  teamPosition :: string
  teamId :: int
  doubleKills :: real
  tripleKills :: real
  quadraKills :: real
  pentaKills :: real
  turretKills :: real
  inhibitorKills :: real
  dragonKills :: real
  baronKills :: real
  firstBloodKill :: bool
  firstBloodAssist :: bool
  firstTowerKill :: bool
  firstTowerAssist :: bool
  objectivesStolen :: real
  objectivesStolenAssists :: real
  damageDealtToObjectives :: real
  damageDealtToTurrets :: real
  damageDealtToBuildings :: real
  timeCCingOthers :: real
  totalHealsOnTeammates :: real
  totalDamageShieldedOnTeammates :: real
  longestTimeSpentLiving :: real
  soloKills :: real
  largestKillingSpree :: real

record MatchInfo =
  gameDuration :: real
  participants :: "MatchParticipant list"

record MatchData =
  info :: MatchInfo

section \<open>ImpactScorer\<close>

definition calculateMatchImpact :: "MatchParticipant \<Rightarrow> real \<Rightarrow> real" where
  "calculateMatchImpact p duration =
    (let minutes = duration / 60 in
     if minutes \<le> 0 then 0
     else
       let kda = (if deaths p = 0 then kills p + assists p
                  else (kills p + assists p) / deaths p);
           kdaScore = min (kda / 3) 2.5;
           csPerMin = (totalMinionsKilled p + js_or (neutralMinionsKilled p) 0) / minutes;
           csScore = min (csPerMin / 7) 1.5;
           visionPerMin = js_or (visionScore p) 0 / minutes;
           visionPts = min (visionPerMin / 1.5) 1;
           dmgPerMin = js_or (totalDamageDealtToChampions p) 0 / minutes;
           dmgScore = min (dmgPerMin / 800) 1.5;
           goldPerMin = js_or (goldEarned p) 0 / minutes;
           goldScore = min (goldPerMin / 450) 1;
           objKills = js_or (turretKills p) 0 * 0.3 + js_or (inhibitorKills p) 0 * 0.5
                      + js_or (dragonKills p) 0 * 0.6 + js_or (baronKills p) 0 * 1;
           objScore = min objKills 1.5;
           objDmgPerMin = js_or (damageDealtToObjectives p) 0 / minutes;
           objDmgScore = min (objDmgPerMin / 600) 1;
           winBonus = (if win p then 1 else 0);
           deathPenalty = min ((deaths p / minutes) * 0.8) 2;
           total = kdaScore + csScore + visionPts + dmgScore + goldScore + objScore
                   + objDmgScore + winBonus - deathPenalty
       in min (max total 0) 10)"

text \<open>
  The formula of the design document, section 4.1, written from its table: each term is
  the listed quantity cut off at its cap, and the final value is clamped to \<open>[0, 10]\<close>.
\<close>

definition clamp :: "real \<Rightarrow> real \<Rightarrow> real \<Rightarrow> real" where
  "clamp x lo hi = (if x < lo then lo else if hi < x then hi else x)"

definition spec_kda_term :: "MatchParticipant \<Rightarrow> real" where
  "spec_kda_term p =
     min ((if deaths p = 0 then kills p + assists p
           else (kills p + assists p) / deaths p) / 3) 2.5"

definition spec_impact_sum :: "MatchParticipant \<Rightarrow> real \<Rightarrow> real" where
  "spec_impact_sum p m =
     spec_kda_term p
     + min ((totalMinionsKilled p + neutralMinionsKilled p) / m / 7) 1.5
     + min (visionScore p / m / 1.5) 1
     + min (totalDamageDealtToChampions p / m / 800) 1.5
     + min (goldEarned p / m / 450) 1
     + min (turretKills p * 0.3 + inhibitorKills p * 0.5 + dragonKills p * 0.6
            + baronKills p * 1) 1.5
     + min (damageDealtToObjectives p / m / 600) 1
     + (if win p then 1 else 0)"

definition spec_impact :: "MatchParticipant \<Rightarrow> real \<Rightarrow> real" where
  "spec_impact p d =
     (if d \<le> 0 then 0
      else clamp (spec_impact_sum p (d / 60) - min ((deaths p / (d / 60)) * 0.8) 2) 0 10)"

section \<open>MatchRanker (EdgeScore)\<close>

text \<open>
  The keys of \<open>categoryMax\<close> and of every row of \<open>roleWeights\<close>, in the order the
  object literal lists them (the order \<open>Object.keys\<close> returns).
\<close>

datatype Category =
  Combat | Damage | Objectives | Economy | Vision | Utility | Clutch | Impact | WinContribution

definition category_keys :: "Category list" where
  "category_keys =
     [Combat, Damage, Objectives, Economy, Vision, Utility, Clutch, Impact, WinContribution]"

definition weights_row ::
  "real \<Rightarrow> real \<Rightarrow> real \<Rightarrow> real \<Rightarrow> real \<Rightarrow> real \<Rightarrow> real \<Rightarrow> real \<Rightarrow> real \<Rightarrow> Category \<Rightarrow> real" where
  "weights_row c d ob e v u cl i w k =
     (case k of Combat \<Rightarrow> c | Damage \<Rightarrow> d | Objectives \<Rightarrow> ob | Economy \<Rightarrow> e | Vision \<Rightarrow> v
      | Utility \<Rightarrow> u | Clutch \<Rightarrow> cl | Impact \<Rightarrow> i | WinContribution \<Rightarrow> w)"

definition roleWeights_DEFAULT :: "Category \<Rightarrow> real" where
  "roleWeights_DEFAULT = weights_row 1.00 1.00 1.00 1.00 1.00 1.00 1.00 1.00 1.00"

definition roleWeights :: "(string \<times> (Category \<Rightarrow> real)) list" where
  "roleWeights =
     [(''TOP'',     weights_row 1.15 1.00 1.10 1.00 0.85 1.15 0.95 1.00 1.00),
      (''JUNGLE'',  weights_row 1.00 0.90 1.20 0.85 1.10 0.95 1.15 1.00 1.00),
      (''MIDDLE'',  weights_row 1.10 1.15 0.95 1.00 0.85 0.85 1.10 1.00 1.00),
      (''BOTTOM'',  weights_row 1.00 1.10 0.95 1.05 0.85 0.85 0.95 1.00 1.00),
      (''UTILITY'', weights_row 0.95 0.80 0.90 0.85 1.15 1.15 1.05 1.00 1.00),
      (''DEFAULT'', roleWeights_DEFAULT)]"

definition categoryMax :: "Category \<Rightarrow> real" where
  "categoryMax k =
     (case k of Combat \<Rightarrow> 25 | Damage \<Rightarrow> 18 | Objectives \<Rightarrow> 20 | Economy \<Rightarrow> 10 | Vision \<Rightarrow> 8
      | Utility \<Rightarrow> 12 | Clutch \<Rightarrow> 12 | Impact \<Rightarrow> 10 | WinContribution \<Rightarrow> 10)"

text \<open>\<open>roleWeights[p.teamPosition] || roleWeights.DEFAULT\<close>\<close>

definition weights_for :: "string \<Rightarrow> Category \<Rightarrow> real" where
  "weights_for pos = (case map_of roleWeights pos of Some w \<Rightarrow> w | None \<Rightarrow> roleWeights_DEFAULT)"

text \<open>\<open>participants.reduce((s, p) => s + f(p), 0)\<close>\<close>

definition reduce_sum :: "(MatchParticipant \<Rightarrow> real) \<Rightarrow> MatchParticipant list \<Rightarrow> real" where
  "reduce_sum f ps = foldl (\<lambda>s p. s + f p) 0 ps"

text \<open>
  The per-team tables \<open>teamKills\<close>, \<open>teamGold\<close>, \<open>teamDmg\<close>: objects keyed by team id.
  \<open>rec_get_or m t d\<close> is \<open>m[t] || d\<close>; \<open>teamAccumulate f\<close> is the \<open>forEach\<close> that adds
  \<open>f(p)\<close> to the entry of \<open>p\<close>'s team.
\<close>

type_synonym TeamRecord = "int \<rightharpoonup> real"

definition rec_get_or :: "TeamRecord \<Rightarrow> int \<Rightarrow> real \<Rightarrow> real" where
  "rec_get_or m t d = (case m t of None \<Rightarrow> d | Some v \<Rightarrow> js_or v d)"

definition teamAccumulate :: "(MatchParticipant \<Rightarrow> real) \<Rightarrow> MatchParticipant list \<Rightarrow> TeamRecord" where
  "teamAccumulate f ps =
     foldl (\<lambda>m p. m(teamId p \<mapsto> rec_get_or m (teamId p) 0 + f p)) Map.empty ps"

record MatchTotals =
  totalKills :: real
  totalDmg :: real
  totalGold :: real
  totalVision :: real
  totalDmgTaken :: real
  totalObjDmg :: real
  totalCC :: real
  totalHealing :: real
  teamKills :: TeamRecord
  teamGold :: TeamRecord
  teamDmg :: TeamRecord

definition matchTotals :: "MatchParticipant list \<Rightarrow> MatchTotals" where
  "matchTotals ps =
     \<lparr> totalKills = max (reduce_sum kills ps) 1,
       totalDmg = max (reduce_sum (\<lambda>p. js_or (totalDamageDealtToChampions p) 0) ps) 1,
       totalGold = max (reduce_sum (\<lambda>p. js_or (goldEarned p) 0) ps) 1,
       totalVision = max (reduce_sum (\<lambda>p. js_or (visionScore p) 0) ps) 1,
       totalDmgTaken = max (reduce_sum (\<lambda>p. js_or (totalDamageTaken p) 0) ps) 1,
       totalObjDmg = max (reduce_sum (\<lambda>p. js_or (damageDealtToObjectives p) 0) ps) 1,
       totalCC = max (reduce_sum (\<lambda>p. js_or (timeCCingOthers p) 0) ps) 1,
       totalHealing = max (reduce_sum (\<lambda>p. js_or (totalHealsOnTeammates p) 0
                                          + js_or (totalDamageShieldedOnTeammates p) 0) ps) 1,
       teamKills = teamAccumulate kills ps,
       teamGold = teamAccumulate (\<lambda>p. js_or (goldEarned p) 0) ps,
       teamDmg = teamAccumulate (\<lambda>p. js_or (totalDamageDealtToChampions p) 0) ps \<rparr>"

text \<open>
  The callback of \<open>participants.map\<close>, block by block. Each category is one definition;
  the locals it shares with other blocks (\<open>kda\<close>, \<open>cs\<close>, \<open>myTeamKills\<close>, \<open>myTeamGold\<close>,
  \<open>myTeamDmg\<close>) are repeated where they are used.
\<close>

definition myTeamKills :: "MatchTotals \<Rightarrow> MatchParticipant \<Rightarrow> real" where
  "myTeamKills T p = max (rec_get_or (teamKills T) (teamId p) 1) 1"

definition myTeamGold :: "MatchTotals \<Rightarrow> MatchParticipant \<Rightarrow> real" where
  "myTeamGold T p = max (rec_get_or (teamGold T) (teamId p) 1) 1"

definition myTeamDmg :: "MatchTotals \<Rightarrow> MatchParticipant \<Rightarrow> real" where
  "myTeamDmg T p = max (rec_get_or (teamDmg T) (teamId p) 1) 1"

definition combat_score :: "MatchTotals \<Rightarrow> real \<Rightarrow> MatchParticipant \<Rightarrow> real" where
  "combat_score T minutes p =
    (let kda = (if deaths p = 0 then (kills p + assists p) * 1.5
                else (kills p + assists p) / deaths p);
         killParticipation = (kills p + assists p) / myTeamKills T p;
         kdaPts = min (kda / 5) 1 * 12;
         kpPts = min killParticipation 1 * 6;
         multiKillPts = min (js_or (doubleKills p) 0 * 0.5 + js_or (tripleKills p) 0 * 1.5
                             + js_or (quadraKills p) 0 * 3 + js_or (pentaKills p) 0 * 7) 7;
         soloPts = min (js_or (soloKills p) 0 * 1.2) 4;
         spreePts = min (js_or (largestKillingSpree p) 0 * 0.3) 3;
         deathPenalty = min ((deaths p / minutes) * 2.5) 7
     in max (kdaPts + kpPts + multiKillPts + soloPts + spreePts - deathPenalty) 0)"

definition damage_score :: "MatchTotals \<Rightarrow> real \<Rightarrow> MatchParticipant \<Rightarrow> real" where
  "damage_score T minutes p =
    (let dmgSharePts = min (js_or (totalDamageDealtToChampions p) 0 / totalDmg T / 0.15) 1 * 10;
         dpmPts = min (js_or (totalDamageDealtToChampions p) 0 / minutes / 700) 1 * 5;
         teamDmgSharePts =
           min (js_or (totalDamageDealtToChampions p) 0 / myTeamDmg T p / 0.25) 1 * 3
     in dmgSharePts + dpmPts + teamDmgSharePts)"

definition objectives_score :: "MatchTotals \<Rightarrow> MatchParticipant \<Rightarrow> real" where
  "objectives_score T p =
    (let turretPts = min (js_or (turretKills p) 0 * 1.5) 4;
         inhibPts = min (js_or (inhibitorKills p) 0 * 2) 3;
         dragonPts = min (js_or (dragonKills p) 0 * 1.5) 3;
         baronPts = min (js_or (baronKills p) 0 * 2.5) 3;
         objDmgShare = js_or (damageDealtToObjectives p) 0 / totalObjDmg T;
         objDmgPts = min (objDmgShare / 0.15) 1 * 4;
         stealPts = (js_or (objectivesStolen p) 0 + js_or (objectivesStolenAssists p) 0 * 0.5) * 3;
         stealCapped = min stealPts 5
     in turretPts + inhibPts + dragonPts + baronPts + objDmgPts + stealCapped)"

definition economy_score :: "MatchTotals \<Rightarrow> real \<Rightarrow> MatchParticipant \<Rightarrow> real" where
  "economy_score T minutes p =
    (let cs = totalMinionsKilled p + js_or (neutralMinionsKilled p) 0;
         goldSharePts = min (js_or (goldEarned p) 0 / totalGold T / 0.12) 1 * 5;
         csPerMin = cs / minutes;
         csPts = min (csPerMin / 8) 1 * 3;
         goldEfficiency = (if myTeamGold T p > 0 then js_or (goldEarned p) 0 / myTeamGold T p
                           else 0);
         goldEffPts = min (goldEfficiency / 0.25) 1 * 2
     in goldSharePts + csPts + goldEffPts)"

definition vision_score :: "MatchTotals \<Rightarrow> real \<Rightarrow> MatchParticipant \<Rightarrow> real" where
  "vision_score T minutes p =
    (let visionSharePts = min (js_or (visionScore p) 0 / totalVision T / 0.13) 1 * 4;
         wardsPerMinPts =
           min ((js_or (wardsPlaced p) 0 + js_or (wardsKilled p) 0) / minutes / 1.5) 1 * 2;
         controlWardPts = min (js_or (visionWardsBoughtInGame p) 0 * 0.5) 2
     in visionSharePts + wardsPerMinPts + controlWardPts)"

definition utility_score :: "MatchTotals \<Rightarrow> MatchParticipant \<Rightarrow> real" where
  "utility_score T p =
    (let ccShare = js_or (timeCCingOthers p) 0 / totalCC T;
         ccPts = min (ccShare / 0.15) 1 * 4;
         healShieldShare = (js_or (totalHealsOnTeammates p) 0
                            + js_or (totalDamageShieldedOnTeammates p) 0) / totalHealing T;
         healShieldPts = min (healShieldShare / 0.15) 1 * 4;
         tankShare = js_or (totalDamageTaken p) 0 / totalDmgTaken T;
         tankPts = min (tankShare / 0.15) 1 * 4
     in ccPts + healShieldPts + tankPts)"

definition clutch_score :: "real \<Rightarrow> real \<Rightarrow> MatchParticipant \<Rightarrow> real" where
  "clutch_score minutes duration p =
    (let firstBloodPts = (if firstBloodKill p then 2 else 0) + (if firstBloodAssist p then 1 else 0);
         firstTowerPts = (if firstTowerKill p then 2 else 0) + (if firstTowerAssist p then 1 else 0);
         towerDmgPts =
           min (js_or (js_or (damageDealtToTurrets p) (damageDealtToBuildings p)) 0
                / minutes / 200) 1 * 3;
         survivalPts = min (js_or (longestTimeSpentLiving p) 0 / (duration * 0.4)) 1 * 2;
         levelAdvPts = min (champLevel p / 18) 1 * 2
     in min (firstBloodPts + firstTowerPts + towerDmgPts + survivalPts + levelAdvPts) 12)"

definition winContribution_score :: "MatchTotals \<Rightarrow> MatchParticipant \<Rightarrow> real" where
  "winContribution_score T p =
    (let teamKillShare = (kills p + assists p) / (myTeamKills T p + 1);
         teamGoldShare = js_or (goldEarned p) 0 / myTeamGold T p;
         teamDmgPct = js_or (totalDamageDealtToChampions p) 0 / myTeamDmg T p;
         carryIndex = teamKillShare * 0.35 + teamDmgPct * 0.35 + teamGoldShare * 0.3;
         winMultiplier = (if win p then 1.5 else 0.7)
     in min (carryIndex * winMultiplier * 15) 10)"

record Breakdown =
  combat :: real
  damage :: real
  objectives :: real
  economy :: real
  vision :: real
  utility :: real
  clutch :: real
  impact :: real
  winContribution :: real

definition breakdown_of :: "MatchTotals \<Rightarrow> real \<Rightarrow> MatchParticipant \<Rightarrow> Breakdown" where
  "breakdown_of T duration p =
    (let minutes = duration / 60 in
     \<lparr> combat = combat_score T minutes p,
       damage = damage_score T minutes p,
       objectives = objectives_score T p,
       economy = economy_score T minutes p,
       vision = vision_score T minutes p,
       utility = utility_score T p,
       clutch = clutch_score minutes duration p,
       impact = calculateMatchImpact p duration,
       winContribution = winContribution_score T p \<rparr>)"

text \<open>
  \<open>rawWeighted\<close>, \<open>roleMax\<close> and \<open>normalized\<close>. In \<open>roleMax\<close> the code reads
  \<open>w[k] ?? 1\<close>; every row of \<open>roleWeights\<close> has all nine keys, so the default is never
  taken. \<open>normalized\<close> is capped at 100 only; the code has no lower cut-off.
\<close>

definition rawWeighted :: "(Category \<Rightarrow> real) \<Rightarrow> Breakdown \<Rightarrow> real" where
  "rawWeighted w b =
     combat b * w Combat + damage b * w Damage + objectives b * w Objectives
     + economy b * w Economy + vision b * w Vision + utility b * w Utility
     + clutch b * w Clutch + impact b * w Impact + winContribution b * w WinContribution"

definition roleMax :: "(Category \<Rightarrow> real) \<Rightarrow> real" where
  "roleMax w = foldl (\<lambda>s k. s + categoryMax k * w k) 0 category_keys"

definition normalized :: "(Category \<Rightarrow> real) \<Rightarrow> Breakdown \<Rightarrow> real" where
  "normalized w b = min (rawWeighted w b / roleMax w * 100) 100"

record Scored =
  s_puuid :: string
  s_score :: real
  s_breakdown :: Breakdown

definition scorePlayer :: "MatchTotals \<Rightarrow> real \<Rightarrow> MatchParticipant \<Rightarrow> Scored" where
  "scorePlayer T duration p =
    (let b = breakdown_of T duration p;
         w = weights_for (teamPosition p)
     in \<lparr> s_puuid = puuid p, s_score = normalized w b, s_breakdown = b \<rparr>)"

text \<open>
  \<open>Array.prototype.sort\<close> with a comparator is stable: elements the comparator does not
  separate keep their order. It is modelled as insertion sort, \<open>x\<close> going in front of the
  first \<open>y\<close> with \<open>cmp x y \<le> 0\<close>.
\<close>

fun insert_by :: "('a \<Rightarrow> 'a \<Rightarrow> real) \<Rightarrow> 'a \<Rightarrow> 'a list \<Rightarrow> 'a list" where
  "insert_by cmp x [] = [x]"
| "insert_by cmp x (y # ys) = (if cmp x y \<le> 0 then x # y # ys else y # insert_by cmp x ys)"

definition sort_by :: "('a \<Rightarrow> 'a \<Rightarrow> real) \<Rightarrow> 'a list \<Rightarrow> 'a list" where
  "sort_by cmp xs = foldr (insert_by cmp) xs []"

record PlayerScore =
  rank :: nat
  score :: real
  breakdown :: Breakdown

text \<open>\<open>scored.forEach((s, i) => result.set(s.puuid, {rank: i + 1, ...}))\<close>, from index \<open>i\<close>.\<close>

fun set_ranks :: "nat \<Rightarrow> Scored list \<Rightarrow> (string \<rightharpoonup> PlayerScore) \<Rightarrow> (string \<rightharpoonup> PlayerScore)" where
  "set_ranks i [] result = result"
| "set_ranks i (s # ss) result =
     set_ranks (i + 1) ss
       (result(s_puuid s \<mapsto> \<lparr> rank = i + 1, score = s_score s, breakdown = s_breakdown s \<rparr>))"

definition scored_of :: "MatchParticipant list \<Rightarrow> real \<Rightarrow> Scored list" where
  "scored_of ps duration = map (scorePlayer (matchTotals ps) duration) ps"

text \<open>
  The third, optional argument \<open>teams\<close> only fills the local table \<open>teamObjectives\<close>, which
  no later expression reads; it is left out.
\<close>

definition rankPlayersInMatch :: "MatchParticipant list \<Rightarrow> real \<Rightarrow> (string \<rightharpoonup> PlayerScore)" where
  "rankPlayersInMatch ps duration =
    (let minutes = duration / 60 in
     if minutes \<le> 0 then Map.empty
     else
       let scored = scored_of ps duration;
           sorted = sort_by (\<lambda>a b. s_score b - s_score a) scored
       in set_ranks 0 sorted Map.empty)"

text \<open>
  The normalisation as the design document words it (section 4.2): the role-weighted sum
  of the nine category scores, divided by the role-specific maximum (the sum over the
  categories of cap times weight), scaled to 100 and clamped to \<open>[0, 100]\<close>.
\<close>

definition category_score :: "Breakdown \<Rightarrow> Category \<Rightarrow> real" where
  "category_score b k =
     (case k of Combat \<Rightarrow> combat b | Damage \<Rightarrow> damage b | Objectives \<Rightarrow> objectives b
      | Economy \<Rightarrow> economy b | Vision \<Rightarrow> vision b | Utility \<Rightarrow> utility b
      | Clutch \<Rightarrow> clutch b | Impact \<Rightarrow> impact b | WinContribution \<Rightarrow> winContribution b)"

definition spec_weighted_sum :: "(Category \<Rightarrow> real) \<Rightarrow> Breakdown \<Rightarrow> real" where
  "spec_weighted_sum w b = (\<Sum>k\<leftarrow>category_keys. category_score b k * w k)"

definition spec_role_max :: "(Category \<Rightarrow> real) \<Rightarrow> real" where
  "spec_role_max w = (\<Sum>k\<leftarrow>category_keys. categoryMax k * w k)"

definition spec_normalized :: "(Category \<Rightarrow> real) \<Rightarrow> Breakdown \<Rightarrow> real" where
  "spec_normalized w b = clamp (spec_weighted_sum w b / spec_role_max w * 100) 0 100"

text \<open>Every numeric counter of a participant is non-negative.\<close>

definition nonneg_counters :: "MatchParticipant \<Rightarrow> bool" where
  "nonneg_counters p \<longleftrightarrow>
     0 \<le> champLevel p \<and> 0 \<le> kills p \<and> 0 \<le> deaths p \<and> 0 \<le> assists p
     \<and> 0 \<le> totalMinionsKilled p \<and> 0 \<le> neutralMinionsKilled p \<and> 0 \<le> visionScore p
     \<and> 0 \<le> visionWardsBoughtInGame p \<and> 0 \<le> wardsPlaced p \<and> 0 \<le> wardsKilled p
     \<and> 0 \<le> goldEarned p \<and> 0 \<le> totalDamageDealtToChampions p \<and> 0 \<le> totalDamageTaken p
     \<and> 0 \<le> doubleKills p \<and> 0 \<le> tripleKills p \<and> 0 \<le> quadraKills p \<and> 0 \<le> pentaKills p
     \<and> 0 \<le> turretKills p \<and> 0 \<le> inhibitorKills p \<and> 0 \<le> dragonKills p \<and> 0 \<le> baronKills p
     \<and> 0 \<le> objectivesStolen p \<and> 0 \<le> objectivesStolenAssists p
     \<and> 0 \<le> damageDealtToObjectives p \<and> 0 \<le> damageDealtToTurrets p
     \<and> 0 \<le> damageDealtToBuildings p \<and> 0 \<le> timeCCingOthers p
     \<and> 0 \<le> totalHealsOnTeammates p \<and> 0 \<le> totalDamageShieldedOnTeammates p
     \<and> 0 \<le> longestTimeSpentLiving p \<and> 0 \<le> soloKills p \<and> 0 \<le> largestKillingSpree p"



section \<open>AggregationEngine\<close>

text \<open>
  \<open>lanes\<close> and \<open>champions\<close> are objects filled key by key; \<open>Object.values\<close> lists them in
  insertion order (lane and champion names are never integer-like keys). They are
  association lists: \<open>map_of\<close> reads a key, \<open>obj_put\<close> overwrites it in place or appends it.
\<close>

fun obj_put :: "'k \<Rightarrow> 'v \<Rightarrow> ('k \<times> 'v) list \<Rightarrow> ('k \<times> 'v) list" where
  "obj_put k v [] = [(k, v)]"
| "obj_put k v ((k', v') # kvs) =
     (if k' = k then (k, v) # kvs else (k', v') # obj_put k v kvs)"

record LaneStats =
  l_games :: nat
  l_wins :: nat

record ChampionStats =
  c_name :: string
  c_games :: nat
  c_wins :: nat
  c_kills :: real
  c_deaths :: real
  c_assists :: real
  c_totalImpact :: real

record AvgKDA =
  avg_kills :: real
  avg_deaths :: real
  avg_assists :: real

definition normalizePosition :: "string \<Rightarrow> string" where
  "normalizePosition pos =
     (case map_of [(''TOP'', ''Top''), (''JUNGLE'', ''Jng''), (''MIDDLE'', ''Mid''),
                   (''BOTTOM'', ''Adc''), (''UTILITY'', ''Sup''), ([], ''Unknown'')] pos of
        Some v \<Rightarrow> v
      | None \<Rightarrow> ''Unknown'')"

text \<open>
  The local variables of the two aggregation loops. The season loop has one more,
  \<open>champions\<close>. The part of the body the two loops share, from the impact score to the
  lane table, is \<open>count_match\<close>.
\<close>

record LoopVars =
  v_impactScores :: "real list"
  v_lanes :: "(string \<times> LaneStats) list"
  v_totalKills :: real
  v_totalDeaths :: real
  v_totalAssists :: real
  v_wins :: nat
  v_losses :: nat

record SeasonLoopVars = LoopVars +
  v_champions :: "(string \<times> ChampionStats) list"

definition count_lane :: "MatchParticipant \<Rightarrow> (string \<times> LaneStats) list \<Rightarrow> (string \<times> LaneStats) list" where
  "count_lane participant lanes =
    (let lane = normalizePosition (teamPosition participant) in
     if lane \<noteq> ''Unknown'' then
       let lanes1 = (case map_of lanes lane of
                       None \<Rightarrow> obj_put lane \<lparr> l_games = 0, l_wins = 0 \<rparr> lanes
                     | Some _ \<Rightarrow> lanes);
           e = (case map_of lanes1 lane of Some e \<Rightarrow> e | None \<Rightarrow> \<lparr> l_games = 0, l_wins = 0 \<rparr>);
           lanes2 = obj_put lane (e\<lparr> l_games := l_games e + 1 \<rparr>) lanes1
       in if win participant then obj_put lane (e\<lparr> l_games := l_games e + 1, l_wins := l_wins e + 1 \<rparr>) lanes2
          else lanes2
     else lanes)"

definition count_match ::
  "MatchParticipant \<Rightarrow> real \<Rightarrow> 'a LoopVars_scheme \<Rightarrow> 'a LoopVars_scheme" where
  "count_match participant imp v =
     v\<lparr> v_impactScores := v_impactScores v @ [imp],
        v_wins := (if win participant then v_wins v + 1 else v_wins v),
        v_losses := (if win participant then v_losses v else v_losses v + 1),
        v_totalKills := v_totalKills v + kills participant,
        v_totalDeaths := v_totalDeaths v + deaths participant,
        v_totalAssists := v_totalAssists v + assists participant,
        v_lanes := count_lane participant (v_lanes v) \<rparr>"

definition count_champion ::
  "MatchParticipant \<Rightarrow> real \<Rightarrow> (string \<times> ChampionStats) list \<Rightarrow> (string \<times> ChampionStats) list" where
  "count_champion participant imp champions =
    (let champ = championName participant;
         fresh = \<lparr> c_name = champ, c_games = 0, c_wins = 0, c_kills = 0, c_deaths = 0,
                   c_assists = 0, c_totalImpact = 0 \<rparr>;
         c = (case map_of champions champ of None \<Rightarrow> fresh | Some c \<Rightarrow> c)
     in obj_put champ
          (c\<lparr> c_games := c_games c + 1,
              c_wins := (if win participant then c_wins c + 1 else c_wins c),
              c_kills := c_kills c + kills participant,
              c_deaths := c_deaths c + deaths participant,
              c_assists := c_assists c + assists participant,
              c_totalImpact := c_totalImpact c + imp \<rparr>)
          (case map_of champions champ of None \<Rightarrow> obj_put champ fresh champions
           | Some _ \<Rightarrow> champions))"

text \<open>One iteration of \<open>for (const match of recent)\<close>; \<open>continue\<close> leaves the variables alone.\<close>

definition recent_step :: "string \<Rightarrow> LoopVars \<Rightarrow> MatchData \<Rightarrow> LoopVars" where
  "recent_step me v m =
    (case find (\<lambda>p. puuid p = me) (participants (info m)) of
       None \<Rightarrow> v
     | Some participant \<Rightarrow>
         count_match participant
           (calculateMatchImpact participant (gameDuration (info m))) v)"

text \<open>One iteration of \<open>for (const match of matchesData)\<close>.\<close>

definition season_step :: "string \<Rightarrow> SeasonLoopVars \<Rightarrow> MatchData \<Rightarrow> SeasonLoopVars" where
  "season_step me v m =
    (case find (\<lambda>p. puuid p = me) (participants (info m)) of
       None \<Rightarrow> v
     | Some participant \<Rightarrow>
         (let imp = calculateMatchImpact participant (gameDuration (info m));
              v1 = count_match participant imp v
          in v1\<lparr> v_champions := count_champion participant imp (v_champions v1) \<rparr>))"

definition recentMatches :: "MatchData list \<Rightarrow> MatchData list" where
  "recentMatches matchesData = slice matchesData 0 20"

record RecentAnalysis =
  r_impactScores :: "real list"
  r_avgImpact :: real
  r_winrate :: int
  r_wins :: nat
  r_losses :: nat
  r_lanes :: "(string \<times> LaneStats) list"
  r_avgKDA :: AvgKDA
  r_recentTrend :: real

text \<open>
  \<open>recentAnalysis\<close>: the early return for an empty window, the loop, and the statements
  after the loop (\<open>recent_summary\<close>, a function of the loop's variables).
\<close>

definition recent_summary :: "LoopVars \<Rightarrow> RecentAnalysis" where
  "recent_summary v =
    (let impactScores = v_impactScores v;
         totalGames = v_wins v + v_losses v;
         avgImpact = (if length impactScores > 0
                      then sum_reduce impactScores / real (length impactScores) else 0);
         recent5 = slice impactScores 0 5;
         prev5 = slice impactScores 5 10;
         recentAvg = (if length recent5 > 0 then sum_reduce recent5 / real (length recent5)
                      else 0);
         prevAvg = (if length prev5 > 0 then sum_reduce prev5 / real (length prev5)
                    else avgImpact);
         recentTrend = recentAvg - prevAvg
     in \<lparr> r_impactScores = impactScores,
          r_avgImpact = avgImpact,
          r_winrate = (if totalGames > 0
                       then Math_round (real (v_wins v) / real totalGames * 100) else 0),
          r_wins = v_wins v,
          r_losses = v_losses v,
          r_lanes = v_lanes v,
          r_avgKDA =
            \<lparr> avg_kills = (if totalGames > 0 then v_totalKills v / real totalGames else 0),
              avg_deaths = (if totalGames > 0 then v_totalDeaths v / real totalGames else 0),
              avg_assists = (if totalGames > 0 then v_totalAssists v / real totalGames else 0) \<rparr>,
          r_recentTrend = recentTrend \<rparr>)"

definition recentAnalysis :: "MatchData list \<Rightarrow> string \<Rightarrow> RecentAnalysis" where
  "recentAnalysis recent me =
    (if length recent = 0 then
       \<lparr> r_impactScores = [], r_avgImpact = 0, r_winrate = 0, r_wins = 0, r_losses = 0,
         r_lanes = [], r_avgKDA = \<lparr> avg_kills = 0, avg_deaths = 0, avg_assists = 0 \<rparr>,
         r_recentTrend = 0 \<rparr>
     else
       recent_summary
         (foldl (recent_step me)
            \<lparr> v_impactScores = [], v_lanes = [], v_totalKills = 0, v_totalDeaths = 0,
              v_totalAssists = 0, v_wins = 0, v_losses = 0 \<rparr> recent))"

record SeasonAnalysis =
  s_impactScores :: "real list"
  s_avgImpact :: real
  s_winrate :: int
  s_wins :: nat
  s_losses :: nat
  s_lanes :: "(string \<times> LaneStats) list"
  s_champions :: "(string \<times> ChampionStats) list"
  s_avgKDA :: AvgKDA
  s_totalGames :: nat

definition season_summary :: "SeasonLoopVars \<Rightarrow> SeasonAnalysis" where
  "season_summary v =
    (let impactScores = v_impactScores v;
         totalGames = v_wins v + v_losses v;
         avgImpact = (if length impactScores > 0
                      then sum_reduce impactScores / real (length impactScores) else 0)
     in \<lparr> s_impactScores = impactScores,
          s_avgImpact = avgImpact,
          s_winrate = (if totalGames > 0
                       then Math_round (real (v_wins v) / real totalGames * 100) else 0),
          s_wins = v_wins v,
          s_losses = v_losses v,
          s_lanes = v_lanes v,
          s_champions = v_champions v,
          s_avgKDA =
            \<lparr> avg_kills = (if totalGames > 0 then v_totalKills v / real totalGames else 0),
              avg_deaths = (if totalGames > 0 then v_totalDeaths v / real totalGames else 0),
              avg_assists = (if totalGames > 0 then v_totalAssists v / real totalGames else 0) \<rparr>,
          s_totalGames = totalGames \<rparr>)"

definition seasonAnalysis :: "MatchData list \<Rightarrow> string \<Rightarrow> SeasonAnalysis" where
  "seasonAnalysis matchesData me =
    (if length matchesData = 0 then
       \<lparr> s_impactScores = [], s_avgImpact = 0, s_winrate = 0, s_wins = 0, s_losses = 0,
         s_lanes = [], s_champions = [],
         s_avgKDA = \<lparr> avg_kills = 0, avg_deaths = 0, avg_assists = 0 \<rparr>, s_totalGames = 0 \<rparr>
     else
       season_summary
         (foldl (season_step me)
            \<lparr> v_impactScores = [], v_lanes = [], v_totalKills = 0, v_totalDeaths = 0,
              v_totalAssists = 0, v_wins = 0, v_losses = 0, v_champions = [] \<rparr> matchesData))"

text \<open>
  \<open>analysis\<close>: the season result with \<open>impactScores\<close>, \<open>avgImpact\<close> and \<open>recentTrend\<close> taken
  from the analysis of the 20 most recent matches.
\<close>

record Analysis =
  impactScores :: "real list"
  avgImpact :: real
  winrate :: int
  wins :: nat
  losses :: nat
  lanes :: "(string \<times> LaneStats) list"
  champions :: "(string \<times> ChampionStats) list"
  avgKDA :: AvgKDA
  totalGames :: nat
  recentTrend :: real

definition analysis :: "MatchData list \<Rightarrow> string \<Rightarrow> Analysis" where
  "analysis matchesData me =
    (let recentA = recentAnalysis (recentMatches matchesData) me;
         seasonA = seasonAnalysis matchesData me
     in \<lparr> impactScores = r_impactScores recentA,
          avgImpact = r_avgImpact recentA,
          winrate = s_winrate seasonA,
          wins = s_wins seasonA,
          losses = s_losses seasonA,
          lanes = s_lanes seasonA,
          champions = s_champions seasonA,
          avgKDA = s_avgKDA seasonA,
          totalGames = s_totalGames seasonA,
          recentTrend = r_recentTrend recentA \<rparr>)"

section \<open>FeedbackGenerator: stability and best champion\<close>

text \<open>
  \<open>getStability\<close> returns one of four labels; in the order of the constructors they are
  the label for too few samples (the first \<open>return\<close>), for high, for medium and for low
  stability.
\<close>

datatype Stability = Malo_danych | Wysoka | Srednia | Niska

definition getStability :: "Analysis \<Rightarrow> Stability" where
  "getStability a =
    (if length (impactScores a) < 5 then Malo_danych
     else
       let variance = foldl (\<lambda>acc score. acc + (score - avgImpact a) ^ 2) 0 (impactScores a)
                      / real (length (impactScores a));
           stdDev = sqrt variance
       in if stdDev < 1 then Wysoka
          else if stdDev < 2 then Srednia
          else Niska)"

record BestChamp =
  b_name :: string
  b_winrate :: int
  b_games :: nat

definition bestChamp :: "(string \<times> ChampionStats) list \<Rightarrow> BestChamp option" where
  "bestChamp champs =
    (let champList = filter (\<lambda>c. c_games c \<ge> 3) (map snd champs) in
     if length champList = 0 then None
     else
       let sorted = sort_by (\<lambda>a b. real (c_wins b) / real (c_games b)
                                    - real (c_wins a) / real (c_games a)) champList
       in (case sorted of
             [] \<Rightarrow> None
           | best # _ \<Rightarrow>
               Some \<lparr> b_name = c_name best,
                      b_winrate = Math_round (real (c_wins best) / real (c_games best) * 100),
                      b_games = c_games best \<rparr>))"

text \<open>
  The best-champion strength rule,
  \<open>if (bestChamp && bestChamp.winrate >= 70 && bestChamp.games >= 5)\<close>: when it fires it
  pushes one item of priority 6 whose text names \<open>bestChamp.name\<close> and \<open>bestChamp.winrate\<close>.
  The result is the champion the pushed item refers to, or \<open>None\<close> when nothing is pushed.
\<close>

definition bestChampStrength :: "BestChamp option \<Rightarrow> BestChamp option" where
  "bestChampStrength bc =
    (case bc of
       None \<Rightarrow> None
     | Some b \<Rightarrow> if b_winrate b \<ge> 70 \<and> b_games b \<ge> 5 then Some b else None)"

section \<open>The aggregation and feedback rules as the design document words them\<close>

text \<open>A match contains a snapshot of the target player.\<close>

definition has_target :: "string \<Rightarrow> MatchData \<Rightarrow> bool" where
  "has_target me m = list_ex (\<lambda>p. puuid p = me) (participants (info m))"

text \<open>The average of a list, \<open>0\<close> for the empty list.\<close>

definition spec_avg :: "real list \<Rightarrow> real" where
  "spec_avg xs = (if xs = [] then 0 else sum_list xs / real (length xs))"

text \<open>
  The trend the code computes, in the words of section 4.3 with the fallback as the code
  has it: the baseline is the average of the entries at indices 5 to 9 as soon as there
  is one, and the overall average only when there is none.
\<close>

definition trend_of :: "real list \<Rightarrow> real" where
  "trend_of xs =
     spec_avg (take 5 xs)
     - (if 5 < length xs then spec_avg (take 5 (drop 5 xs)) else spec_avg xs)"

text \<open>
  The trend as section 4.3 and the scenario of section 8 word it: the overall average is
  the baseline whenever the second slice has fewer than 5 entries.
\<close>

definition spec_trend :: "real list \<Rightarrow> real" where
  "spec_trend xs =
     spec_avg (take 5 xs)
     - (if length (take 5 (drop 5 xs)) < 5 then spec_avg xs else spec_avg (take 5 (drop 5 xs)))"

text \<open>Population standard deviation and the stability classes of section 4.4.\<close>

definition spec_std_dev :: "real list \<Rightarrow> real" where
  "spec_std_dev xs = sqrt ((\<Sum>x\<leftarrow>xs. (x - spec_avg xs) ^ 2) / real (length xs))"

definition spec_stability :: "real list \<Rightarrow> Stability" where
  "spec_stability xs =
     (if length xs < 5 then Malo_danych
      else if spec_std_dev xs < 1 then Wysoka
      else if spec_std_dev xs < 2 then Srednia
      else Niska)"

text \<open>The win rate of a champion entry, as the comparator of \<open>bestChamp\<close> computes it.\<close>

definition win_rate :: "ChampionStats \<Rightarrow> real" where
  "win_rate c = real (c_wins c) / real (c_games c)"

section \<open>Sample inputs\<close>

definition zeroParticipant :: MatchParticipant where
  "zeroParticipant =
    \<lparr> puuid = ''p0'', championName = ''Ahri'', champLevel = 0, kills = 0, deaths = 0,
      assists = 0, win = False, totalMinionsKilled = 0, neutralMinionsKilled = 0,
      visionScore = 0, visionWardsBoughtInGame = 0, wardsPlaced = 0, wardsKilled = 0,
      goldEarned = 0, totalDamageDealtToChampions = 0, totalDamageTaken = 0,
      teamPosition = [], teamId = 100, doubleKills = 0, tripleKills = 0, quadraKills = 0,
      pentaKills = 0, turretKills = 0, inhibitorKills = 0, dragonKills = 0, baronKills = 0,
      firstBloodKill = False, firstBloodAssist = False, firstTowerKill = False,
      firstTowerAssist = False, objectivesStolen = 0, objectivesStolenAssists = 0,
      damageDealtToObjectives = 0, damageDealtToTurrets = 0, damageDealtToBuildings = 0,
      timeCCingOthers = 0, totalHealsOnTeammates = 0, totalDamageShieldedOnTeammates = 0,
      longestTimeSpentLiving = 0, soloKills = 0, largestKillingSpree = 0 \<rparr>"

text \<open>The 30-minute scenario of the design document, section 8.\<close>

definition scenarioParticipant :: MatchParticipant where
  "scenarioParticipant =
     zeroParticipant\<lparr> kills := 10, deaths := 2, assists := 5, totalMinionsKilled := 200,
       visionScore := 30, totalDamageDealtToChampions := 18000, goldEarned := 14000,
       win := True \<rparr>"

text \<open>
  A match of ten players who are level 18 and have every other counter at zero, five per
  team, one per role on each team.
\<close>

definition samplePlayer :: "string \<Rightarrow> string \<Rightarrow> int \<Rightarrow> MatchParticipant" where
  "samplePlayer i pos t =
     zeroParticipant\<lparr> puuid := i, teamPosition := pos, teamId := t, champLevel := 18 \<rparr>"

definition tiedMatch :: "MatchParticipant list" where
  "tiedMatch =
     [samplePlayer ''a'' ''TOP'' 100, samplePlayer ''b'' ''JUNGLE'' 100,
      samplePlayer ''c'' ''MIDDLE'' 100, samplePlayer ''d'' ''BOTTOM'' 100,
      samplePlayer ''e'' ''UTILITY'' 100, samplePlayer ''f'' ''TOP'' 200,
      samplePlayer ''g'' ''JUNGLE'' 200, samplePlayer ''h'' ''MIDDLE'' 200,
      samplePlayer ''i'' ''BOTTOM'' 200, samplePlayer ''j'' ''UTILITY'' 200]"


text \<open>
  A player whose impact score in a one-minute match is \<open>n\<close>, for \<open>n\<close> from 3 to 9: six
  kills without a death and a win give 3, and each further counter adds one full point.
\<close>

definition impactPlayer :: "nat \<Rightarrow> MatchParticipant" where
  "impactPlayer n =
     zeroParticipant\<lparr> puuid := ''me'', kills := 6, win := True,
       baronKills := (if 4 \<le> n then 1 else 0),
       goldEarned := (if 5 \<le> n then 450 else 0),
       visionScore := (if 6 \<le> n then 2 else 0),
       damageDealtToObjectives := (if 7 \<le> n then 600 else 0),
       totalDamageDealtToChampions := (if 8 \<le> n then 800 else 0),
       totalMinionsKilled := (if 9 \<le> n then 7 else 0) \<rparr>"

definition trendMatch :: "nat \<Rightarrow> MatchData" where
  "trendMatch n =
     \<lparr> info = \<lparr> gameDuration = 60, participants = [zeroParticipant, impactPlayer n] \<rparr> \<rparr>"

text \<open>The window of section 8: seven matches with impact scores 8, 7, 9, 6, 5, 4, 3.\<close>

definition trendWindow :: "MatchData list" where
  "trendWindow = map trendMatch [8, 7, 9, 6, 5, 4, 3]"

text \<open>A match the target player \<open>me\<close> did not play in.\<close>

definition foreignMatch :: MatchData where
  "foreignMatch = \<lparr> info = \<lparr> gameDuration = 1800, participants = [scenarioParticipant] \<rparr> \<rparr>"

text \<open>
  Two champions: three games, all won, on the first; five games, four won, on the second.
\<close>

definition champsThreeFive :: "(string \<times> ChampionStats) list" where
  "champsThreeFive =
     [(''Ahri'', \<lparr> c_name = ''Ahri'', c_games = 3, c_wins = 3, c_kills = 12, c_deaths = 6,
                   c_assists = 20, c_totalImpact = 21 \<rparr>),
      (''Jinx'', \<lparr> c_name = ''Jinx'', c_games = 5, c_wins = 4, c_kills = 30, c_deaths = 15,
                   c_assists = 25, c_totalImpact = 33 \<rparr>)]"

text \<open>One champion with six games, five of them won.\<close>

definition champsPocket :: "(string \<times> ChampionStats) list" where
  "champsPocket =
     [(''Jinx'', \<lparr> c_name = ''Jinx'', c_games = 6, c_wins = 5, c_kills = 30, c_deaths = 15,
                   c_assists = 25, c_totalImpact = 40 \<rparr>)]"

section \<open>Facts about the ImpactScorer\<close>

lemma js_or_zero [simp]: "js_or x 0 = x"
  by (simp add: js_or_def)

lemma clamp_0_10: "clamp x 0 10 = min (max x 0) 10"
  by (simp add: clamp_def min_def max_def)

lemma min_max_bounds: "0 \<le> min (max (t::real) 0) 10 \<and> min (max t 0) 10 \<le> 10"
  by simp

lemma minutes_nonpos_iff: "(d / 60 \<le> 0) = (d \<le> (0::real))"
  by simp

lemma calculateMatchImpact_nonpos: "d \<le> 0 \<Longrightarrow> calculateMatchImpact p d = 0"
  by (simp only: calculateMatchImpact_def Let_def minutes_nonpos_iff if_True)

lemma calculateMatchImpact_bounds:
  "0 \<le> calculateMatchImpact p d \<and> calculateMatchImpact p d \<le> 10"
proof (cases "d \<le> 0")
  case True
  then show ?thesis by (simp add: calculateMatchImpact_nonpos)
next
  case False
  then show ?thesis
    by (simp only: calculateMatchImpact_def Let_def minutes_nonpos_iff if_False min_max_bounds)
qed

lemma calculateMatchImpact_spec: "calculateMatchImpact p d = spec_impact p d"
proof (cases "d \<le> 0")
  case True
  then show ?thesis by (simp add: calculateMatchImpact_nonpos spec_impact_def)
next
  case False
  then show ?thesis
    by (simp only: calculateMatchImpact_def spec_impact_def spec_impact_sum_def
        spec_kda_term_def Let_def minutes_nonpos_iff if_False js_or_zero clamp_0_10)
qed

text \<open>
  C1. For every participant record and game duration the ImpactScorer's result is the
  clamp to \<open>[0, 10]\<close> of the sum of the eight capped terms of section 4.1 minus the death
  penalty \<open>min((deaths/minutes) * 0.8, 2)\<close>; it therefore lies in \<open>[0, 10]\<close>, and it is
  exactly \<open>0\<close> whenever the duration is not positive.
\<close>

theorem C1_impact_formula_range:
  "calculateMatchImpact p d = spec_impact p d
   \<and> 0 \<le> calculateMatchImpact p d \<and> calculateMatchImpact p d \<le> 10
   \<and> (d \<le> 0 \<longrightarrow> calculateMatchImpact p d = 0)"
  using calculateMatchImpact_spec [of p d] calculateMatchImpact_bounds [of p d]
    calculateMatchImpact_nonpos [of d p]
  by blast

theorem C1_impact_witness:
  "calculateMatchImpact scenarioParticipant 1800 = spec_impact scenarioParticipant 1800
   \<and> 0 \<le> calculateMatchImpact scenarioParticipant 1800
   \<and> calculateMatchImpact scenarioParticipant 1800 \<le> 10
   \<and> (0::real) \<le> 0 \<and> calculateMatchImpact scenarioParticipant 0 = 0"
  using C1_impact_formula_range [of scenarioParticipant 1800]
    C1_impact_formula_range [of scenarioParticipant 0]
  by simp

lemma scenario_impact_value: "calculateMatchImpact scenarioParticipant 1800 = 4771 / 700"
  by (simp add: calculateMatchImpact_def scenarioParticipant_def zeroParticipant_def)

section \<open>Facts about the MatchRanker\<close>

lemma insert_by_insort_key:
  "insert_by (\<lambda>a b. f b - f a) x ys = insort_key (\<lambda>a. - f a) x ys"
  by (induction ys) auto

lemma sort_by_sort_key: "sort_by (\<lambda>a b. f b - f a) xs = sort_key (\<lambda>a. - f a) xs"
  by (induction xs) (simp_all add: sort_by_def insert_by_insort_key)

lemma set_ranks_other: "k \<notin> s_puuid ` set ss \<Longrightarrow> set_ranks i ss m k = m k"
  by (induction ss arbitrary: i m) auto

lemma set_ranks_nth:
  "distinct (map s_puuid ss) \<Longrightarrow> j < length ss \<Longrightarrow>
   set_ranks i ss m (s_puuid (ss ! j))
     = Some \<lparr> rank = i + j + 1, score = s_score (ss ! j), breakdown = s_breakdown (ss ! j) \<rparr>"
proof (induction ss arbitrary: i j m)
  case Nil
  then show ?case by simp
next
  case (Cons s ss)
  show ?case
  proof (cases j)
    case 0
    with Cons.prems show ?thesis by (simp add: set_ranks_other)
  next
    case (Suc j')
    with Cons.prems Cons.IH [of j' "i + 1"] show ?thesis by simp
  qed
qed

lemma set_ranks_Some:
  "set_ranks i ss m k = Some e \<Longrightarrow>
   m k = Some e \<or>
   (\<exists>j < length ss. s_puuid (ss ! j) = k
      \<and> e = \<lparr> rank = i + j + 1, score = s_score (ss ! j), breakdown = s_breakdown (ss ! j) \<rparr>)"
proof (induction ss arbitrary: i m)
  case Nil
  then show ?case by simp
next
  case (Cons s ss)
  from Cons.prems have
    "set_ranks (i + 1) ss
       (m(s_puuid s \<mapsto> \<lparr> rank = i + 1, score = s_score s, breakdown = s_breakdown s \<rparr>)) k = Some e"
    by simp
  from Cons.IH [OF this] show ?case
  proof
    assume "(m(s_puuid s \<mapsto> \<lparr> rank = i + 1, score = s_score s, breakdown = s_breakdown s \<rparr>)) k = Some e"
    then show ?thesis by (cases "k = s_puuid s") (auto intro: exI [of _ 0])
  next
    assume "\<exists>j<length ss. s_puuid (ss ! j) = k \<and>
      e = \<lparr>rank = i + 1 + j + 1, score = s_score (ss ! j), breakdown = s_breakdown (ss ! j)\<rparr>"
    then obtain j where "j < length ss" "s_puuid (ss ! j) = k"
      "e = \<lparr>rank = i + 1 + j + 1, score = s_score (ss ! j), breakdown = s_breakdown (ss ! j)\<rparr>"
      by blast
    then show ?thesis by (intro disjI2 exI [of _ "Suc j"]) simp
  qed
qed

lemma dom_set_ranks: "dom (set_ranks i ss m) = dom m \<union> s_puuid ` set ss"
  by (induction ss arbitrary: i m) auto

lemma rankPlayersInMatch_nonpos: "d \<le> 0 \<Longrightarrow> rankPlayersInMatch ps d = Map.empty"
  by (simp add: rankPlayersInMatch_def)

lemma rankPlayersInMatch_pos:
  "0 < d \<Longrightarrow> rankPlayersInMatch ps d
     = set_ranks 0 (sort_key (\<lambda>s. - s_score s) (scored_of ps d)) Map.empty"
  by (simp add: rankPlayersInMatch_def sort_by_sort_key)

lemma map_s_puuid_scored: "map s_puuid (scored_of ps d) = map puuid ps"
  by (simp add: scored_of_def scorePlayer_def Let_def)

lemma distinct_map_sort_key:
  "distinct (map f xs) \<Longrightarrow> distinct (map f (sort_key g xs))"
  by (simp add: distinct_map)


lemma length_scored_of [simp]: "length (scored_of ps d) = length ps"
  by (simp add: scored_of_def)

lemma puuid_image_scored: "s_puuid ` set (scored_of ps d) = puuid ` set ps"
proof -
  have "set (map s_puuid (scored_of ps d)) = set (map puuid ps)"
    by (simp only: map_s_puuid_scored)
  then show ?thesis by (simp only: set_map)
qed

lemma sorted_scored_facts:
  "length (sort_key (\<lambda>s. - s_score s) (scored_of ps d)) = length ps"
  "distinct (map puuid ps) \<Longrightarrow>
     distinct (map s_puuid (sort_key (\<lambda>s. - s_score s) (scored_of ps d)))"
  "set (sort_key (\<lambda>s. - s_score s) (scored_of ps d)) = set (scored_of ps d)"
proof -
  show "length (sort_key (\<lambda>s. - s_score s) (scored_of ps d)) = length ps"
    by (simp add: length_scored_of)
  show "set (sort_key (\<lambda>s. - s_score s) (scored_of ps d)) = set (scored_of ps d)"
    by simp
  assume "distinct (map puuid ps)"
  then have "distinct (map s_puuid (scored_of ps d))"
    by (simp only: map_s_puuid_scored)
  then show "distinct (map s_puuid (sort_key (\<lambda>s. - s_score s) (scored_of ps d)))"
    by (rule distinct_map_sort_key)
qed

lemma ranked_entry_iff:
  assumes "0 < d" and "distinct (map puuid ps)"
  shows "rankPlayersInMatch ps d k = Some e \<longleftrightarrow>
     (\<exists>j < length ps.
        s_puuid (sort_key (\<lambda>s. - s_score s) (scored_of ps d) ! j) = k
        \<and> e = \<lparr> rank = j + 1,
                score = s_score (sort_key (\<lambda>s. - s_score s) (scored_of ps d) ! j),
                breakdown = s_breakdown (sort_key (\<lambda>s. - s_score s) (scored_of ps d) ! j) \<rparr>)"
proof -
  define ss where "ss = sort_key (\<lambda>s. - s_score s) (scored_of ps d)"
  have len: "length ss = length ps" and dist: "distinct (map s_puuid ss)"
    using assms(2) by (simp_all add: ss_def sorted_scored_facts)
  have m: "rankPlayersInMatch ps d = set_ranks 0 ss Map.empty"
    using assms(1) by (simp add: rankPlayersInMatch_pos ss_def)
  show ?thesis
    unfolding ss_def [symmetric] m
  proof
    assume "set_ranks 0 ss Map.empty k = Some e"
    from set_ranks_Some [OF this] len
    show "\<exists>j<length ps. s_puuid (ss ! j) = k \<and>
        e = \<lparr>rank = j + 1, score = s_score (ss ! j), breakdown = s_breakdown (ss ! j)\<rparr>"
      by auto
  next
    assume "\<exists>j<length ps. s_puuid (ss ! j) = k \<and>
        e = \<lparr>rank = j + 1, score = s_score (ss ! j), breakdown = s_breakdown (ss ! j)\<rparr>"
    then obtain j where j: "j < length ss" "s_puuid (ss ! j) = k"
      "e = \<lparr>rank = j + 1, score = s_score (ss ! j), breakdown = s_breakdown (ss ! j)\<rparr>"
      using len by auto
    from set_ranks_nth [OF dist j(1), of 0 Map.empty] j(2,3)
    show "set_ranks 0 ss Map.empty k = Some e" by simp
  qed
qed

lemma sorted_scores_desc:
  assumes "i \<le> j" and "j < length ps"
  shows "s_score (sort_key (\<lambda>s. - s_score s) (scored_of ps d) ! j)
     \<le> s_score (sort_key (\<lambda>s. - s_score s) (scored_of ps d) ! i)"
proof -
  let ?ss = "sort_key (\<lambda>s. - s_score s) (scored_of ps d)"
  have srt: "sorted (map (\<lambda>s. - s_score s) ?ss)" by (rule sorted_sort_key)
  have len: "j < length (map (\<lambda>s. - s_score s) ?ss)"
    using assms(2) by simp
  from sorted_nth_mono [OF srt assms(1) len] assms show ?thesis by simp
qed

text \<open>
  C2. For a match of 10 participants with pairwise distinct player ids and a positive
  duration, the ranks in the returned map are exactly \<open>1, ..., 10\<close>, the map has 10
  entries and no two of them share a rank, and a better (smaller) rank never goes with a
  smaller normalized score; in particular rank \<open>i\<close> has a score at least that of rank
  \<open>i + 1\<close>.
\<close>

theorem C2_ranks_permutation_sorted:
  assumes "0 < d" and "length ps = 10" and "distinct (map puuid ps)"
  shows "rank ` ran (rankPlayersInMatch ps d) = {1..10}
    \<and> card (dom (rankPlayersInMatch ps d)) = 10
    \<and> (\<forall>k k' e e'. rankPlayersInMatch ps d k = Some e \<and> rankPlayersInMatch ps d k' = Some e'
          \<and> rank e = rank e' \<longrightarrow> k = k')
    \<and> (\<forall>e e'. e \<in> ran (rankPlayersInMatch ps d) \<and> e' \<in> ran (rankPlayersInMatch ps d)
          \<and> rank e \<le> rank e' \<longrightarrow> score e' \<le> score e)"
proof -
  define ss where "ss = sort_key (\<lambda>s. - s_score s) (scored_of ps d)"
  define m where "m = rankPlayersInMatch ps d"
  have iff: "m k = Some e \<longleftrightarrow>
     (\<exists>j < 10. s_puuid (ss ! j) = k
        \<and> e = \<lparr> rank = j + 1, score = s_score (ss ! j), breakdown = s_breakdown (ss ! j) \<rparr>)"
    for k e
    using ranked_entry_iff [OF assms(1,3), of k e] assms(2) by (simp add: ss_def m_def)
  have ran_iff: "e \<in> ran m \<longleftrightarrow>
     (\<exists>j < 10. e = \<lparr> rank = j + 1, score = s_score (ss ! j), breakdown = s_breakdown (ss ! j) \<rparr>)"
    for e
    unfolding ran_def using iff by auto
  have ranks: "rank ` ran m = {1..10}"
  proof (intro equalityI subsetI)
    fix r assume "r \<in> rank ` ran m"
    then obtain e where "e \<in> ran m" "r = rank e" by blast
    with ran_iff show "r \<in> {1..10}" by auto
  next
    fix r :: nat assume "r \<in> {1..10}"
    then have "r - 1 < 10" "r = (r - 1) + 1" by auto
    then have "\<lparr> rank = r, score = s_score (ss ! (r - 1)),
                 breakdown = s_breakdown (ss ! (r - 1)) \<rparr> \<in> ran m"
      using ran_iff by metis
    then show "r \<in> rank ` ran m" by force
  qed
  have dom: "dom m = set (map puuid ps)"
    using assms(1) unfolding m_def
    by (simp add: rankPlayersInMatch_pos dom_set_ranks sorted_scored_facts(3)
        puuid_image_scored)
  have card: "card (dom m) = 10"
    unfolding dom using assms(2,3) distinct_card [of "map puuid ps"] by simp
  have inj: "k = k'" if "m k = Some e" "m k' = Some e'" "rank e = rank e'" for k k' e e'
  proof -
    from that(1) iff obtain j where j: "s_puuid (ss ! j) = k" "rank e = j + 1" by auto
    from that(2) iff obtain j' where j': "s_puuid (ss ! j') = k'" "rank e' = j' + 1" by auto
    from j j' that(3) show ?thesis by simp
  qed
  have mono: "score e' \<le> score e" if "e \<in> ran m" "e' \<in> ran m" "rank e \<le> rank e'" for e e'
  proof -
    from that(1) ran_iff obtain j where j: "j < 10" "rank e = j + 1" "score e = s_score (ss ! j)"
      by auto
    from that(2) ran_iff obtain j' where j': "j' < 10" "rank e' = j' + 1"
      "score e' = s_score (ss ! j')" by auto
    from j j' that(3) have "j \<le> j'" by simp
    from sorted_scores_desc [OF this, of ps d] j' assms(2) j show ?thesis
      by (simp add: ss_def)
  qed
  from ranks card inj mono show ?thesis unfolding m_def by blast
qed

lemma weights_for_cases:
  "weights_for pos \<in> snd ` set roleWeights"
  by (auto simp: weights_for_def roleWeights_def split: option.splits dest!: map_of_SomeD)

lemma weights_row_pos:
  "0 < c \<Longrightarrow> 0 < d \<Longrightarrow> 0 < ob \<Longrightarrow> 0 < e \<Longrightarrow> 0 < v \<Longrightarrow> 0 < u \<Longrightarrow> 0 < cl \<Longrightarrow> 0 < i \<Longrightarrow> 0 < w
   \<Longrightarrow> 0 < weights_row c d ob e v u cl i w k"
  by (cases k) (simp_all add: weights_row_def)

lemma weights_for_pos: "0 < weights_for pos k"
  using weights_for_cases [of pos]
  by (auto simp: roleWeights_def roleWeights_DEFAULT_def intro!: weights_row_pos)

lemma categoryMax_pos: "0 < categoryMax k"
  by (cases k) (simp_all add: categoryMax_def)

lemma roleMax_eq_spec: "roleMax w = spec_role_max w"
  by (simp add: roleMax_def spec_role_max_def category_keys_def)

lemma rawWeighted_eq_spec: "rawWeighted w b = spec_weighted_sum w b"
  by (simp add: rawWeighted_def spec_weighted_sum_def category_keys_def category_score_def)

lemma roleMax_pos: "0 < roleMax (weights_for pos)"
  unfolding roleMax_def category_keys_def
  by (simp add: add_pos_pos categoryMax_pos weights_for_pos)

lemma matchTotals_pos:
  "0 < totalKills (matchTotals ps)" "0 < totalDmg (matchTotals ps)"
  "0 < totalGold (matchTotals ps)" "0 < totalVision (matchTotals ps)"
  "0 < totalDmgTaken (matchTotals ps)" "0 < totalObjDmg (matchTotals ps)"
  "0 < totalCC (matchTotals ps)" "0 < totalHealing (matchTotals ps)"
  by (simp_all add: matchTotals_def)

lemma myTeam_pos: "0 < myTeamKills T p" "0 < myTeamGold T p" "0 < myTeamDmg T p"
  by (simp_all add: myTeamKills_def myTeamGold_def myTeamDmg_def)

lemma min_nonneg: "0 \<le> a \<Longrightarrow> 0 \<le> b \<Longrightarrow> (0::real) \<le> min a b"
  by simp

lemma combat_nonneg: "0 \<le> combat_score T m p"
  by (simp only: combat_score_def Let_def max.cobounded2)

lemma damage_nonneg:
  assumes "nonneg_counters p" "0 < m" "0 < totalDmg T"
  shows "0 \<le> damage_score T m p"
  using assms myTeam_pos [of T p] unfolding damage_score_def Let_def js_or_zero nonneg_counters_def
  by (intro add_nonneg_nonneg mult_nonneg_nonneg min_nonneg divide_nonneg_nonneg) simp_all


lemma objectives_nonneg:
  assumes "nonneg_counters p" "0 < totalObjDmg T"
  shows "0 \<le> objectives_score T p"
  using assms unfolding objectives_score_def Let_def js_or_zero nonneg_counters_def
  by (intro add_nonneg_nonneg mult_nonneg_nonneg min_nonneg divide_nonneg_nonneg) simp_all

lemma economy_nonneg:
  assumes "nonneg_counters p" "0 < m" "0 < totalGold T"
  shows "0 \<le> economy_score T m p"
  using assms myTeam_pos [of T p] unfolding economy_score_def Let_def js_or_zero nonneg_counters_def
  by (intro add_nonneg_nonneg mult_nonneg_nonneg min_nonneg divide_nonneg_nonneg) simp_all

lemma vision_nonneg:
  assumes "nonneg_counters p" "0 < m" "0 < totalVision T"
  shows "0 \<le> vision_score T m p"
  using assms unfolding vision_score_def Let_def js_or_zero nonneg_counters_def
  by (intro add_nonneg_nonneg mult_nonneg_nonneg min_nonneg divide_nonneg_nonneg) simp_all

lemma utility_nonneg:
  assumes "nonneg_counters p" "0 < totalCC T" "0 < totalHealing T" "0 < totalDmgTaken T"
  shows "0 \<le> utility_score T p"
  using assms unfolding utility_score_def Let_def js_or_zero nonneg_counters_def
  by (intro add_nonneg_nonneg mult_nonneg_nonneg min_nonneg divide_nonneg_nonneg) simp_all

lemma js_or_nonneg: "0 \<le> x \<Longrightarrow> 0 \<le> d \<Longrightarrow> 0 \<le> js_or x d"
  by (simp add: js_or_def)

lemma clutch_nonneg:
  assumes "nonneg_counters p" "0 < m" "0 < d"
  shows "0 \<le> clutch_score m d p"
  using assms unfolding clutch_score_def Let_def nonneg_counters_def
  by (intro add_nonneg_nonneg mult_nonneg_nonneg min_nonneg divide_nonneg_nonneg js_or_nonneg)
     simp_all

lemma winContribution_nonneg:
  assumes "nonneg_counters p"
  shows "0 \<le> winContribution_score T p"
  using assms myTeam_pos [of T p] unfolding winContribution_score_def Let_def js_or_zero
    nonneg_counters_def
  by (intro add_nonneg_nonneg mult_nonneg_nonneg min_nonneg divide_nonneg_nonneg) simp_all

lemma breakdown_nonneg:
  assumes "nonneg_counters p" "0 < d"
  shows "0 \<le> category_score (breakdown_of (matchTotals ps) d p) k"
proof -
  have m: "0 < d / 60" using assms(2) by simp
  note facts = combat_nonneg damage_nonneg [OF assms(1) m] objectives_nonneg [OF assms(1)]
    economy_nonneg [OF assms(1) m] vision_nonneg [OF assms(1) m] utility_nonneg [OF assms(1)]
    clutch_nonneg [OF assms(1) m assms(2)] winContribution_nonneg [OF assms(1)]
    calculateMatchImpact_bounds [of p d] matchTotals_pos
  show ?thesis
    by (cases k) (simp_all add: category_score_def breakdown_of_def Let_def facts)
qed

lemma spec_weighted_sum_nonneg:
  assumes "\<And>k. 0 \<le> category_score b k" "\<And>k. 0 < w k"
  shows "0 \<le> spec_weighted_sum w b"
  unfolding spec_weighted_sum_def
proof (rule sum_list_nonneg)
  fix x assume "x \<in> set (map (\<lambda>k. category_score b k * w k) category_keys)"
  then obtain k where "x = category_score b k * w k" by auto
  then show "0 \<le> x" using assms(1) [of k] assms(2) [of k] by simp
qed

lemma normalized_eq_spec:
  assumes "\<And>k. 0 \<le> category_score b k"
  shows "normalized (weights_for pos) b = spec_normalized (weights_for pos) b"
    and "0 \<le> normalized (weights_for pos) b" and "normalized (weights_for pos) b \<le> 100"
proof -
  let ?x = "spec_weighted_sum (weights_for pos) b / spec_role_max (weights_for pos) * 100"
  have "0 \<le> spec_weighted_sum (weights_for pos) b"
    by (rule spec_weighted_sum_nonneg) (simp_all add: assms weights_for_pos)
  moreover have "0 < spec_role_max (weights_for pos)"
    using roleMax_pos [of pos] by (simp add: roleMax_eq_spec)
  ultimately have x: "0 \<le> ?x" by simp
  have n: "normalized (weights_for pos) b = min ?x 100"
    by (simp add: normalized_def roleMax_eq_spec rawWeighted_eq_spec)
  show "normalized (weights_for pos) b = spec_normalized (weights_for pos) b"
    unfolding n spec_normalized_def clamp_def using x by (simp add: min_def)
  show "0 \<le> normalized (weights_for pos) b" unfolding n using x by simp
  show "normalized (weights_for pos) b \<le> 100" unfolding n by simp
qed

lemma scorePlayer_simps:
  "s_puuid (scorePlayer T d p) = puuid p"
  "s_breakdown (scorePlayer T d p) = breakdown_of T d p"
  "s_score (scorePlayer T d p) = normalized (weights_for (teamPosition p)) (breakdown_of T d p)"
  by (simp_all add: scorePlayer_def Let_def)

lemma entry_from_participant:
  assumes "0 < d" and "rankPlayersInMatch ps d k = Some e"
  shows "\<exists>p\<in>set ps. puuid p = k
           \<and> score e = s_score (scorePlayer (matchTotals ps) d p)
           \<and> breakdown e = s_breakdown (scorePlayer (matchTotals ps) d p)"
proof -
  let ?ss = "sort_key (\<lambda>s. - s_score s) (scored_of ps d)"
  from assms have "set_ranks 0 ?ss Map.empty k = Some e"
    by (simp add: rankPlayersInMatch_pos)
  from set_ranks_Some [OF this] obtain j where j: "j < length ?ss" "s_puuid (?ss ! j) = k"
    "e = \<lparr> rank = 0 + j + 1, score = s_score (?ss ! j), breakdown = s_breakdown (?ss ! j) \<rparr>"
    by auto
  from j(1) have "?ss ! j \<in> set ?ss" by (rule nth_mem)
  then have "?ss ! j \<in> set (scored_of ps d)" by simp
  then obtain p where p: "p \<in> set ps" "?ss ! j = scorePlayer (matchTotals ps) d p"
    by (auto simp: scored_of_def)
  with j show ?thesis by (intro bexI [of _ p]) (simp_all add: scorePlayer_simps)
qed

lemma entry_of_participant:
  assumes "0 < d" and "distinct (map puuid ps)" and "p \<in> set ps"
  shows "\<exists>e. rankPlayersInMatch ps d (puuid p) = Some e
           \<and> score e = s_score (scorePlayer (matchTotals ps) d p)
           \<and> breakdown e = s_breakdown (scorePlayer (matchTotals ps) d p)"
proof -
  from assms(3) have "puuid p \<in> dom (rankPlayersInMatch ps d)"
    using assms(1)
    by (simp add: rankPlayersInMatch_pos dom_set_ranks puuid_image_scored)
  then obtain e where e: "rankPlayersInMatch ps d (puuid p) = Some e" by blast
  from entry_from_participant [OF assms(1) e] obtain q where q: "q \<in> set ps"
    "puuid q = puuid p" "score e = s_score (scorePlayer (matchTotals ps) d q)"
    "breakdown e = s_breakdown (scorePlayer (matchTotals ps) d q)" by blast
  from assms(2,3) q(1,2) have "q = p" by (meson distinct_map inj_onD)
  with e q show ?thesis by blast
qed

text \<open>
  C10. Called with a game duration that is not positive, the ranker returns the empty map:
  no participant receives a rank, a score or a breakdown.
\<close>

theorem C10_ranker_empty_on_nonpositive_duration:
  "d \<le> 0 \<Longrightarrow> rankPlayersInMatch ps d = Map.empty"
  by (simp add: rankPlayersInMatch_def)

text \<open>
  C5. For a positive duration, the \<open>impact\<close> entry of every breakdown in the returned map
  is the ImpactScorer's result for the participant the entry was computed from, who carries
  the entry's player id; with pairwise distinct player ids, every participant has an entry
  and its \<open>impact\<close> field is the ImpactScorer's result for that participant and duration.
\<close>

theorem C5_impact_category_is_impact_score:
  assumes "0 < d"
  shows "(\<forall>k e. rankPlayersInMatch ps d k = Some e \<longrightarrow>
            (\<exists>p\<in>set ps. puuid p = k \<and> breakdown e = breakdown_of (matchTotals ps) d p
               \<and> impact (breakdown e) = calculateMatchImpact p d))
       \<and> (distinct (map puuid ps) \<longrightarrow>
            (\<forall>p\<in>set ps. \<exists>e. rankPlayersInMatch ps d (puuid p) = Some e
               \<and> impact (breakdown e) = calculateMatchImpact p d))"
proof (intro conjI allI impI ballI)
  fix k e assume "rankPlayersInMatch ps d k = Some e"
  from entry_from_participant [OF assms this]
  show "\<exists>p\<in>set ps. puuid p = k \<and> breakdown e = breakdown_of (matchTotals ps) d p
               \<and> impact (breakdown e) = calculateMatchImpact p d"
    by (auto simp: scorePlayer_simps breakdown_of_def Let_def)
next
  fix p assume "distinct (map puuid ps)" "p \<in> set ps"
  from entry_of_participant [OF assms this]
  show "\<exists>e. rankPlayersInMatch ps d (puuid p) = Some e
               \<and> impact (breakdown e) = calculateMatchImpact p d"
    by (auto simp: scorePlayer_simps breakdown_of_def Let_def)
qed

text \<open>
  C3. For a positive duration and participants whose counters are non-negative, every
  participant has an entry, and every entry's normalized score is the role-weighted sum of
  its nine category scores divided by the role-specific maximum, scaled to 100 and clamped
  to \<open>[0, 100]\<close>; it lies in \<open>[0, 100]\<close>.
\<close>

theorem C3_normalized_score_formula_range:
  assumes "0 < d" and "\<forall>p\<in>set ps. nonneg_counters p"
  shows "(\<forall>p\<in>set ps. puuid p \<in> dom (rankPlayersInMatch ps d))
       \<and> (\<forall>k e. rankPlayersInMatch ps d k = Some e \<longrightarrow>
            0 \<le> score e \<and> score e \<le> 100
            \<and> (\<exists>p\<in>set ps. puuid p = k \<and> breakdown e = breakdown_of (matchTotals ps) d p
                  \<and> score e = spec_normalized (weights_for (teamPosition p)) (breakdown e)))"
proof (intro conjI allI impI ballI)
  fix p assume "p \<in> set ps"
  then show "puuid p \<in> dom (rankPlayersInMatch ps d)"
    using assms(1) by (simp add: rankPlayersInMatch_pos dom_set_ranks puuid_image_scored)
next
  fix k e assume e: "rankPlayersInMatch ps d k = Some e"
  from entry_from_participant [OF assms(1) e] obtain p where p: "p \<in> set ps" "puuid p = k"
    "score e = normalized (weights_for (teamPosition p)) (breakdown_of (matchTotals ps) d p)"
    "breakdown e = breakdown_of (matchTotals ps) d p"
    by (auto simp: scorePlayer_simps)
  from p(1) assms(2) have nn: "nonneg_counters p" by blast
  note n = normalized_eq_spec [of "breakdown_of (matchTotals ps) d p" "teamPosition p",
      OF breakdown_nonneg [OF nn assms(1)]]
  from n(2) p(3) show "0 \<le> score e" by simp
  from n(3) p(3) show "score e \<le> 100" by simp
  from n(1) p show "\<exists>p\<in>set ps. puuid p = k \<and> breakdown e = breakdown_of (matchTotals ps) d p
                  \<and> score e = spec_normalized (weights_for (teamPosition p)) (breakdown e)"
    by (intro bexI [of _ p]) simp_all
qed

lemma tiedMatch_facts:
  "length tiedMatch = 10" "distinct (map puuid tiedMatch)"
  "list_all nonneg_counters tiedMatch"
  by (simp_all add: tiedMatch_def samplePlayer_def zeroParticipant_def nonneg_counters_def)

theorem C10_witness:
  "(0::real) \<le> 0 \<and> rankPlayersInMatch tiedMatch 0 = Map.empty"
  using C10_ranker_empty_on_nonpositive_duration [of 0 tiedMatch] by simp

theorem C2_witness:
  "(0::real) < 60 \<and> length tiedMatch = 10 \<and> distinct (map puuid tiedMatch)
   \<and> rank ` ran (rankPlayersInMatch tiedMatch 60) = {1..10}
   \<and> card (dom (rankPlayersInMatch tiedMatch 60)) = 10"
proof -
  have d: "(0::real) < 60" by simp
  from C2_ranks_permutation_sorted [OF d tiedMatch_facts(1,2)] d tiedMatch_facts(1,2)
  show ?thesis by blast
qed

lemma tiedMatch_a:
  "samplePlayer ''a'' ''TOP'' 100 \<in> set tiedMatch"
  "puuid (samplePlayer ''a'' ''TOP'' 100) = ''a''"
  "teamPosition (samplePlayer ''a'' ''TOP'' 100) = ''TOP''"
  by (simp_all add: tiedMatch_def samplePlayer_def)

lemma tiedMatch_a_unique: "p \<in> set tiedMatch \<Longrightarrow> puuid p = ''a'' \<Longrightarrow> p = samplePlayer ''a'' ''TOP'' 100"
  by (auto simp: tiedMatch_def samplePlayer_def)

theorem C5_witness:
  "(0::real) < 60 \<and> distinct (map puuid tiedMatch)
   \<and> (\<exists>e. rankPlayersInMatch tiedMatch 60 ''a'' = Some e
         \<and> impact (breakdown e) = calculateMatchImpact (samplePlayer ''a'' ''TOP'' 100) 60)"
proof -
  have d: "(0::real) < 60" by simp
  from C5_impact_category_is_impact_score [OF d, of tiedMatch] tiedMatch_facts(2) tiedMatch_a(1)
  have "\<exists>e. rankPlayersInMatch tiedMatch 60 (puuid (samplePlayer ''a'' ''TOP'' 100)) = Some e
         \<and> impact (breakdown e) = calculateMatchImpact (samplePlayer ''a'' ''TOP'' 100) 60"
    by blast
  with d tiedMatch_facts(2) show ?thesis by (simp only: tiedMatch_a(2))
qed

theorem C3_witness:
  "(0::real) < 60 \<and> list_all nonneg_counters tiedMatch
   \<and> (\<exists>e. rankPlayersInMatch tiedMatch 60 ''a'' = Some e \<and> 0 \<le> score e \<and> score e \<le> 100
         \<and> score e = spec_normalized (weights_for ''TOP'') (breakdown e))"
proof -
  have d: "(0::real) < 60" by simp
  have nn: "\<forall>p\<in>set tiedMatch. nonneg_counters p"
    using tiedMatch_facts(3) by (simp add: list_all_iff)
  note c3 = C3_normalized_score_formula_range [OF d nn]
  from c3 tiedMatch_a(1) have "puuid (samplePlayer ''a'' ''TOP'' 100)
      \<in> dom (rankPlayersInMatch tiedMatch 60)" by blast
  then obtain e where e: "rankPlayersInMatch tiedMatch 60 ''a'' = Some e"
    by (auto simp only: tiedMatch_a(2))
  from c3 e obtain p where p: "0 \<le> score e" "score e \<le> 100" "p \<in> set tiedMatch"
    "puuid p = ''a''" "score e = spec_normalized (weights_for (teamPosition p)) (breakdown e)"
    by blast
  from tiedMatch_a_unique [OF p(3,4)] p(5)
  have "score e = spec_normalized (weights_for ''TOP'') (breakdown e)"
    by (simp only: tiedMatch_a(3))
  with d tiedMatch_facts(3) e p(1,2) show ?thesis by blast
qed





































section \<open>Facts about the AggregationEngine and the FeedbackGenerator\<close>

lemma foldl_plus_sum_list: "foldl (\<lambda>a b. a + g b) (a0::real) xs = a0 + sum_list (map g xs)"
  by (induction xs arbitrary: a0) simp_all

lemma sum_reduce_sum_list: "sum_reduce xs = sum_list xs"
  using foldl_plus_sum_list [of "\<lambda>b. b" 0 xs] by (simp add: sum_reduce_def)

lemma find_None_no_target: "find (\<lambda>p. puuid p = me) (participants (info m)) = None \<longleftrightarrow> \<not> has_target me m"
  by (auto simp: has_target_def find_None_iff list_ex_iff)

lemma recent_step_skip: "\<not> has_target me m \<Longrightarrow> recent_step me v m = v"
  by (simp add: recent_step_def find_None_no_target [symmetric])

lemma season_step_skip: "\<not> has_target me m \<Longrightarrow> season_step me v m = v"
  by (simp add: season_step_def find_None_no_target [symmetric])

lemma foldl_recent_filter:
  "foldl (recent_step me) v (filter (has_target me) ms) = foldl (recent_step me) v ms"
  by (induction ms arbitrary: v) (simp_all add: recent_step_skip)

lemma foldl_season_filter:
  "foldl (season_step me) v (filter (has_target me) ms) = foldl (season_step me) v ms"
  by (induction ms arbitrary: v) (simp_all add: season_step_skip)

lemma recent_summary_init:
  "recent_summary \<lparr> v_impactScores = [], v_lanes = [], v_totalKills = 0, v_totalDeaths = 0,
              v_totalAssists = 0, v_wins = 0, v_losses = 0 \<rparr>
   = \<lparr> r_impactScores = [], r_avgImpact = 0, r_winrate = 0, r_wins = 0, r_losses = 0,
         r_lanes = [], r_avgKDA = \<lparr> avg_kills = 0, avg_deaths = 0, avg_assists = 0 \<rparr>,
         r_recentTrend = 0 \<rparr>"
  by (simp add: recent_summary_def slice_def sum_reduce_def)

lemma season_summary_init:
  "season_summary \<lparr> v_impactScores = [], v_lanes = [], v_totalKills = 0, v_totalDeaths = 0,
              v_totalAssists = 0, v_wins = 0, v_losses = 0, v_champions = [] \<rparr>
   = \<lparr> s_impactScores = [], s_avgImpact = 0, s_winrate = 0, s_wins = 0, s_losses = 0,
         s_lanes = [], s_champions = [],
         s_avgKDA = \<lparr> avg_kills = 0, avg_deaths = 0, avg_assists = 0 \<rparr>, s_totalGames = 0 \<rparr>"
  by (simp add: season_summary_def sum_reduce_def)

lemma recentAnalysis_filter:
  "recentAnalysis (filter (has_target me) ms) me = recentAnalysis ms me"
proof (cases "filter (has_target me) ms = []")
  case True
  have "foldl (recent_step me) v ms = v" for v
    using foldl_recent_filter [of me v ms] by (simp only: True foldl_Nil)
  then show ?thesis
    by (simp add: recentAnalysis_def True recent_summary_init)
next
  case False
  then have "ms \<noteq> []" by auto
  with False show ?thesis
    by (simp only: recentAnalysis_def foldl_recent_filter length_0_conv if_False)
qed

lemma seasonAnalysis_filter:
  "seasonAnalysis (filter (has_target me) ms) me = seasonAnalysis ms me"
proof (cases "filter (has_target me) ms = []")
  case True
  have "foldl (season_step me) v ms = v" for v
    using foldl_season_filter [of me v ms] by (simp only: True foldl_Nil)
  then show ?thesis
    by (simp add: seasonAnalysis_def True season_summary_init)
next
  case False
  then have "ms \<noteq> []" by auto
  with False show ?thesis
    by (simp only: seasonAnalysis_def foldl_season_filter length_0_conv if_False)
qed

text \<open>
  C6. For both aggregation windows and every target player id, aggregating a list of
  matches gives the same result as aggregating its sublist of the matches that contain a
  snapshot of the target player: a match without the target contributes to no output
  (wins, losses, win rate, the kill, death and assist sums, lane and champion tables, the
  list of impact scores).
\<close>

theorem C6_absent_target_matches_contribute_nothing:
  "recentAnalysis (filter (has_target me) ms) me = recentAnalysis ms me
   \<and> seasonAnalysis (filter (has_target me) ms) me = seasonAnalysis ms me"
  by (simp only: recentAnalysis_filter seasonAnalysis_filter)


lemma slice_simps: "slice xs 0 5 = take 5 xs" "slice xs 5 10 = take 5 (drop 5 xs)"
  by (simp_all add: slice_def)

lemma recent_summary_fields:
  "r_impactScores (recent_summary v) = v_impactScores v"
  "r_avgImpact (recent_summary v) = spec_avg (v_impactScores v)"
  "r_recentTrend (recent_summary v) = trend_of (v_impactScores v)"
proof -
  show "r_impactScores (recent_summary v) = v_impactScores v"
    by (simp add: recent_summary_def Let_def)
  show "r_avgImpact (recent_summary v) = spec_avg (v_impactScores v)"
    by (simp add: recent_summary_def Let_def spec_avg_def sum_reduce_sum_list)
  show "r_recentTrend (recent_summary v) = trend_of (v_impactScores v)"
    by (cases "5 < length (v_impactScores v)")
      (auto simp: recent_summary_def Let_def slice_simps sum_reduce_sum_list trend_of_def
        spec_avg_def)
qed

lemma recentAnalysis_trend:
  "r_recentTrend (recentAnalysis w me) = trend_of (r_impactScores (recentAnalysis w me))"
  by (simp add: recentAnalysis_def recent_summary_fields trend_of_def spec_avg_def)

lemma recentAnalysis_avg:
  "r_avgImpact (recentAnalysis w me) = spec_avg (r_impactScores (recentAnalysis w me))"
  by (simp add: recentAnalysis_def recent_summary_fields spec_avg_def)

lemma foldl_recent_impacts:
  "v_impactScores (foldl (recent_step me) v ms)
     = v_impactScores v
       @ concat (map (\<lambda>m. case find (\<lambda>p. puuid p = me) (participants (info m)) of
                            None \<Rightarrow> []
                          | Some p \<Rightarrow> [calculateMatchImpact p (gameDuration (info m))]) ms)"
  by (induction ms arbitrary: v)
     (simp_all add: recent_step_def count_match_def split: option.splits)

lemma impactPlayer_fields:
  "puuid (impactPlayer n) = ''me''" "kills (impactPlayer n) = 6" "deaths (impactPlayer n) = 0"
  "assists (impactPlayer n) = 0" "win (impactPlayer n) = True"
  "totalMinionsKilled (impactPlayer n) = (if 9 \<le> n then 7 else 0)"
  "neutralMinionsKilled (impactPlayer n) = 0"
  "visionScore (impactPlayer n) = (if 6 \<le> n then 2 else 0)"
  "totalDamageDealtToChampions (impactPlayer n) = (if 8 \<le> n then 800 else 0)"
  "goldEarned (impactPlayer n) = (if 5 \<le> n then 450 else 0)"
  "turretKills (impactPlayer n) = 0" "inhibitorKills (impactPlayer n) = 0"
  "dragonKills (impactPlayer n) = 0"
  "baronKills (impactPlayer n) = (if 4 \<le> n then 1 else 0)"
  "damageDealtToObjectives (impactPlayer n) = (if 7 \<le> n then 600 else 0)"
  by (simp_all add: impactPlayer_def zeroParticipant_def)

lemma impact_impactPlayer:
  "calculateMatchImpact (impactPlayer 3) 60 = 3" "calculateMatchImpact (impactPlayer 4) 60 = 4"
  "calculateMatchImpact (impactPlayer 5) 60 = 5" "calculateMatchImpact (impactPlayer 6) 60 = 6"
  "calculateMatchImpact (impactPlayer 7) 60 = 7" "calculateMatchImpact (impactPlayer 8) 60 = 8"
  "calculateMatchImpact (impactPlayer 9) 60 = 9"
  by (simp_all add: calculateMatchImpact_def Let_def impactPlayer_fields)

lemma trendMatch_find:
  "find (\<lambda>p. puuid p = ''me'') (participants (info (trendMatch n))) = Some (impactPlayer n)"
  "gameDuration (info (trendMatch n)) = 60"
  by (simp_all add: trendMatch_def impactPlayer_fields zeroParticipant_def)

lemma trendWindow_impacts:
  "r_impactScores (recentAnalysis trendWindow ''me'') = [8, 7, 9, 6, 5, 4, 3]"
  by (simp add: recentAnalysis_def recent_summary_fields foldl_recent_impacts)
     (simp add: trendWindow_def trendMatch_find impact_impactPlayer)

lemma trend_values:
  "trend_of [8, 7, 9, 6, 5, 4, 3] = 7 / 2" "spec_trend [8, 7, 9, 6, 5, 4, 3] = 1"
  by (simp_all add: trend_of_def spec_trend_def spec_avg_def)

text \<open>
  C4, as stated, fails. For the window of seven matches with impact scores
  8, 7, 9, 6, 5, 4, 3 the code's trend is \<open>7 - 7/2 = 7/2\<close>: the second slice \<open>[4, 3]\<close> is not
  empty, so its own average is the baseline. The rule as worded (fallback whenever the
  second slice has fewer than 5 entries) would give \<open>7 - 6 = 1\<close>.
\<close>

theorem C4_trend_of_seven_counterexample:
  "r_impactScores (recentAnalysis trendWindow ''me'') = [8, 7, 9, 6, 5, 4, 3]
   \<and> r_recentTrend (recentAnalysis trendWindow ''me'') = 7 / 2
   \<and> spec_trend [8, 7, 9, 6, 5, 4, 3] = 1"
  by (simp add: recentAnalysis_trend trendWindow_impacts trend_values)

text \<open>
  C4, amended. The trend of the recent window is the average of the first 5 impact scores
  minus the average of the scores at indices 5 to 9 whenever there is at least one such
  score (the window holds more than 5 impact scores); the window's overall average is the
  baseline only when the second slice is empty.
\<close>

theorem C4_trend_fallback_only_when_second_slice_empty:
  "(5 < length (r_impactScores (recentAnalysis w me)) \<longrightarrow>
      r_recentTrend (recentAnalysis w me)
        = spec_avg (take 5 (r_impactScores (recentAnalysis w me)))
          - spec_avg (take 5 (drop 5 (r_impactScores (recentAnalysis w me)))))
   \<and> (length (r_impactScores (recentAnalysis w me)) \<le> 5 \<longrightarrow>
      r_recentTrend (recentAnalysis w me)
        = spec_avg (take 5 (r_impactScores (recentAnalysis w me)))
          - spec_avg (r_impactScores (recentAnalysis w me)))"
  by (simp add: recentAnalysis_trend trend_of_def)

theorem C4_trend_witness:
  "5 < length (r_impactScores (recentAnalysis trendWindow ''me''))
   \<and> r_recentTrend (recentAnalysis trendWindow ''me'')
       = spec_avg [8, 7, 9, 6, 5] - spec_avg [4, 3]
   \<and> length (r_impactScores (recentAnalysis [trendMatch 8] ''me'')) \<le> 5
   \<and> r_recentTrend (recentAnalysis [trendMatch 8] ''me'') = spec_avg [8] - spec_avg [8]"
proof -
  have one: "r_impactScores (recentAnalysis [trendMatch 8] ''me'') = [8]"
    by (simp add: recentAnalysis_def recent_summary_fields recent_step_def count_match_def
        trendMatch_find impact_impactPlayer)
  from C4_trend_fallback_only_when_second_slice_empty [of trendWindow "''me''"]
    C4_trend_fallback_only_when_second_slice_empty [of "[trendMatch 8]" "''me''"]
  show ?thesis by (simp add: trendWindow_impacts one)
qed

lemma has_target_samples:
  "\<not> has_target ''me'' foreignMatch" "has_target ''me'' (trendMatch n)"
  by (simp_all add: has_target_def foreignMatch_def trendMatch_def scenarioParticipant_def
      zeroParticipant_def impactPlayer_fields)

theorem C6_witness:
  "\<not> has_target ''me'' foreignMatch
   \<and> recentAnalysis (foreignMatch # trendWindow) ''me'' = recentAnalysis trendWindow ''me''
   \<and> seasonAnalysis (foreignMatch # trendWindow) ''me'' = seasonAnalysis trendWindow ''me''"
proof -
  have f: "filter (has_target ''me'') (foreignMatch # trendWindow) = trendWindow"
    by (simp add: has_target_samples trendWindow_def)
  from C6_absent_target_matches_contribute_nothing [of "''me''" "foreignMatch # trendWindow"]
  show ?thesis by (simp only: f has_target_samples) simp
qed

lemma analysis_fields:
  "impactScores (analysis ms me) = r_impactScores (recentAnalysis (recentMatches ms) me)"
  "avgImpact (analysis ms me) = spec_avg (impactScores (analysis ms me))"
  "champions (analysis ms me) = s_champions (seasonAnalysis ms me)"
  "recentTrend (analysis ms me) = r_recentTrend (recentAnalysis (recentMatches ms) me)"
  by (simp_all add: analysis_def Let_def recentAnalysis_avg)

lemma getStability_spec: "getStability a = spec_stability (impactScores a)"
  if "avgImpact a = spec_avg (impactScores a)"
  using that foldl_plus_sum_list [of "\<lambda>s. (s - spec_avg (impactScores a)) ^ 2" 0 "impactScores a"]
  by (simp add: getStability_def spec_stability_def spec_std_dev_def Let_def)

text \<open>
  C7. The stability label is the sentinel for too few samples whenever the window holds
  fewer than 5 impact scores; with 5 or more it is the class of the population standard
  deviation of the window's impact scores: high below 1, medium below 2, low otherwise.
\<close>

theorem C7_stability_sentinel_and_classes:
  "getStability (analysis ms me) = spec_stability (impactScores (analysis ms me))"
  by (rule getStability_spec) (rule analysis_fields(2))

lemma sqrt_less_2_iff: "sqrt x < 2 \<longleftrightarrow> x < 4"
  using real_sqrt_less_iff [of x 4] by simp

theorem C7_stability_witness:
  "impactScores (analysis trendWindow ''me'') = [8, 7, 9, 6, 5, 4, 3]
   \<and> getStability (analysis trendWindow ''me'') = Niska
   \<and> getStability (analysis [trendMatch 8] ''me'') = Malo_danych"
proof -
  have w: "recentMatches trendWindow = trendWindow"
    by (simp add: recentMatches_def slice_def trendWindow_def)
  have seven: "impactScores (analysis trendWindow ''me'') = [8, 7, 9, 6, 5, 4, 3]"
    by (simp add: analysis_fields(1) w trendWindow_impacts)
  have one: "impactScores (analysis [trendMatch 8] ''me'') = [8]"
    by (simp add: analysis_fields(1) recentMatches_def slice_def recentAnalysis_def
        recent_summary_fields recent_step_def count_match_def trendMatch_find
        impact_impactPlayer)
  have "spec_stability [8, 7, 9, 6, 5, 4, 3] = Niska"
    by (simp add: spec_stability_def spec_std_dev_def spec_avg_def)
  moreover have "spec_stability [8] = Malo_danych"
    by (simp add: spec_stability_def)
  ultimately show ?thesis
    using C7_stability_sentinel_and_classes [of trendWindow "''me''"]
      C7_stability_sentinel_and_classes [of "[trendMatch 8]" "''me''"]
    by (simp add: seven one)
qed

lemma bestChamp_cmp:
  "sort_by (\<lambda>a b. real (c_wins b) / real (c_games b) - real (c_wins a) / real (c_games a)) xs
     = sort_key (\<lambda>c. - win_rate c) xs"
  using sort_by_sort_key [of win_rate xs] by (simp add: win_rate_def)

lemma sort_key_head_least:
  assumes "sort_key f xs = y # ys"
  shows "y \<in> set xs" and "\<forall>x\<in>set xs. f y \<le> f x"
proof -
  have "set (sort_key f xs) = set xs" by simp
  with assms show "y \<in> set xs" by auto
  have "sorted (map f (sort_key f xs))" by (rule sorted_sort_key)
  with assms have "\<forall>x\<in>set ys. f y \<le> f x" by simp
  moreover have "set xs = insert y (set ys)"
    using assms \<open>set (sort_key f xs) = set xs\<close> by auto
  ultimately show "\<forall>x\<in>set xs. f y \<le> f x" by simp
qed

lemma bestChamp_Some:
  assumes "bestChamp champs = Some b"
  shows "\<exists>c\<in>snd ` set champs. 3 \<le> c_games c
           \<and> b = \<lparr> b_name = c_name c, b_winrate = Math_round (win_rate c * 100),
                   b_games = c_games c \<rparr>
           \<and> (\<forall>c'\<in>snd ` set champs. 3 \<le> c_games c' \<longrightarrow> win_rate c' \<le> win_rate c)"
proof -
  let ?l = "filter (\<lambda>c. 3 \<le> c_games c) (map snd champs)"
  from assms obtain c cs where srt: "sort_key (\<lambda>c. - win_rate c) ?l = c # cs"
    and b: "b = \<lparr> b_name = c_name c, b_winrate = Math_round (win_rate c * 100),
                   b_games = c_games c \<rparr>"
    by (auto simp: bestChamp_def Let_def bestChamp_cmp win_rate_def
        split: if_splits list.splits)
  from sort_key_head_least [OF srt] have "c \<in> set ?l"
    and "\<forall>x\<in>set ?l. win_rate x \<le> win_rate c" by simp_all
  with b show ?thesis by (intro bexI [of _ c]) auto
qed

lemma bestChamp_None: "bestChamp champs = None \<longleftrightarrow> (\<forall>c\<in>snd ` set champs. c_games c < 3)"
proof -
  let ?l = "filter (\<lambda>c. 3 \<le> c_games c) (map snd champs)"
  have "sort_key (\<lambda>c. - win_rate c) ?l = [] \<longleftrightarrow> ?l = []"
    by (metis length_0_conv length_sort)
  then show ?thesis
    by (auto simp: bestChamp_def Let_def bestChamp_cmp filter_empty_conv not_le
        split: list.splits)
qed

lemma bestChampStrength_Some:
  "bestChampStrength bc = Some b \<longleftrightarrow> bc = Some b \<and> 70 \<le> b_winrate b \<and> 5 \<le> b_games b"
  by (auto simp: bestChampStrength_def split: option.splits)

text \<open>
  C8, amended. \<open>bestChamp\<close> is absent exactly when no champion has 3 games; otherwise it is
  a champion with at least 3 games whose win rate is highest among all champions with at
  least 3 games, with that champion's name, game count and rounded win-rate percentage.
  The strength rule fires exactly when this champion has at least 5 games and a rounded
  win rate of at least 70, and then refers to it.
\<close>

theorem C8_best_champion_among_three_or_more_games:
  "(bestChamp champs = None \<longleftrightarrow> (\<forall>c\<in>snd ` set champs. c_games c < 3))
   \<and> (bestChamp champs = Some b \<longrightarrow>
        (\<exists>c\<in>snd ` set champs. 3 \<le> c_games c \<and> b_name b = c_name c \<and> b_games b = c_games c
           \<and> b_winrate b = Math_round (win_rate c * 100)
           \<and> (\<forall>c'\<in>snd ` set champs. 3 \<le> c_games c' \<longrightarrow> win_rate c' \<le> win_rate c)))
   \<and> (bestChampStrength (bestChamp champs) = Some b \<longleftrightarrow>
        bestChamp champs = Some b \<and> 70 \<le> b_winrate b \<and> 5 \<le> b_games b)"
proof (intro conjI impI)
  show "bestChamp champs = None \<longleftrightarrow> (\<forall>c\<in>snd ` set champs. c_games c < 3)"
    by (rule bestChamp_None)
  show "bestChampStrength (bestChamp champs) = Some b \<longleftrightarrow>
        bestChamp champs = Some b \<and> 70 \<le> b_winrate b \<and> 5 \<le> b_games b"
    by (rule bestChampStrength_Some)
  assume "bestChamp champs = Some b"
  from bestChamp_Some [OF this]
  show "\<exists>c\<in>snd ` set champs. 3 \<le> c_games c \<and> b_name b = c_name c \<and> b_games b = c_games c
           \<and> b_winrate b = Math_round (win_rate c * 100)
           \<and> (\<forall>c'\<in>snd ` set champs. 3 \<le> c_games c' \<longrightarrow> win_rate c' \<le> win_rate c)"
    by force
qed

lemma bestChamp_samples:
  "bestChamp champsThreeFive = Some \<lparr> b_name = ''Ahri'', b_winrate = 100, b_games = 3 \<rparr>"
  "bestChamp champsPocket = Some \<lparr> b_name = ''Jinx'', b_winrate = 83, b_games = 6 \<rparr>"
  by (simp_all add: bestChamp_def champsThreeFive_def champsPocket_def sort_by_def
      Math_round_def)

text \<open>
  C8, as stated, fails. With a champion at 3 games, 3 wins and another at 5 games, 4 wins,
  \<open>bestChamp\<close> is the 3-game champion (win rate 100), so a champion with fewer than 5 games
  determines the metric, and the strength rule does not fire although the only champion
  with at least 5 games has a win rate of 80.
\<close>

theorem C8_three_game_champion_counterexample:
  "bestChamp champsThreeFive = Some \<lparr> b_name = ''Ahri'', b_winrate = 100, b_games = 3 \<rparr>
   \<and> bestChampStrength (bestChamp champsThreeFive) = None
   \<and> map (\<lambda>c. (c_name c, c_games c, Math_round (win_rate c * 100)))
        (filter (\<lambda>c. 5 \<le> c_games c) (map snd champsThreeFive)) = [(''Jinx'', 5, 80)]"
  by (simp add: bestChamp_samples bestChampStrength_def)
     (simp add: champsThreeFive_def win_rate_def Math_round_def)

theorem C8_best_champion_witness:
  "bestChamp champsPocket = Some \<lparr> b_name = ''Jinx'', b_winrate = 83, b_games = 6 \<rparr>
   \<and> bestChampStrength (bestChamp champsPocket)
       = Some \<lparr> b_name = ''Jinx'', b_winrate = 83, b_games = 6 \<rparr>
   \<and> bestChamp [] = None"
  using C8_best_champion_among_three_or_more_games
      [of champsPocket "\<lparr> b_name = ''Jinx'', b_winrate = 83, b_games = 6 \<rparr>"]
    C8_best_champion_among_three_or_more_games
      [of "[]" "\<lparr> b_name = ''Jinx'', b_winrate = 83, b_games = 6 \<rparr>"]
  by (simp add: bestChamp_samples)

end
